theory Spec2Isabelle
  imports Complex_Main
begin

section \<open>Python strings\<close>

text \<open>
  A Python \<open>str\<close> is a sequence of Unicode code points and \<open>len\<close> counts code points,
  so a string is modelled as the list of its code points. \<open>u\<close> reads an ASCII literal;
  a character outside ASCII is written as its code point.
\<close>

type_synonym ustr = "nat list"

definition u :: "string \<Rightarrow> ustr" where
  "u s = map of_char s"

text \<open>The exceptions the engine raises or lets through; \<open>RuntimeError\<close> carries its message.\<close>

datatype py_error =
  FileNotFoundError | ValueError | KeyError | IndexError
  | FileExistsError | NotADirectoryError | IsADirectoryError
  | RuntimeError ustr

text \<open>
  \<open>str.isspace\<close> on one character: the code points Python treats as whitespace
  (used by \<open>strip\<close> and \<open>split\<close>).
\<close>

definition is_space :: "nat \<Rightarrow> bool" where
  "is_space c \<longleftrightarrow>
     (9 \<le> c \<and> c \<le> 13) \<or> (28 \<le> c \<and> c \<le> 32) \<or> c = 133 \<or> c = 160 \<or> c = 5760
     \<or> (8192 \<le> c \<and> c \<le> 8202) \<or> c = 8232 \<or> c = 8233 \<or> c = 8239 \<or> c = 8287
     \<or> c = 12288"

definition lstrip_ws :: "ustr \<Rightarrow> ustr" where
  "lstrip_ws s = dropWhile is_space s"

definition rstrip_ws :: "ustr \<Rightarrow> ustr" where
  "rstrip_ws s = rev (dropWhile is_space (rev s))"

definition strip :: "ustr \<Rightarrow> ustr" where
  "strip s = rstrip_ws (lstrip_ws s)"

text \<open>\<open>s.lstrip(chars)\<close>: drop every leading character that occurs in \<open>chars\<close>.\<close>

definition lstrip_chars :: "ustr \<Rightarrow> ustr \<Rightarrow> ustr" where
  "lstrip_chars chars s = dropWhile (\<lambda>c. c \<in> set chars) s"

text \<open>The slice \<open>s[i:j]\<close> for \<open>0 \<le> i \<le> j\<close>; Python clips it to the string.\<close>

definition slice :: "nat \<Rightarrow> nat \<Rightarrow> ustr \<Rightarrow> ustr" where
  "slice i j s = take (j - i) (drop i s)"

text \<open>
  Case mapping is modelled on the ASCII letters; every other code point is left as it
  is and counts as uncased. On ASCII text the functions below are Python's
  \<open>str.upper\<close>, \<open>str.lower\<close> and \<open>str.title\<close>.
\<close>

definition is_ascii_lower :: "nat \<Rightarrow> bool" where
  "is_ascii_lower c \<longleftrightarrow> 97 \<le> c \<and> c \<le> 122"

definition is_ascii_upper :: "nat \<Rightarrow> bool" where
  "is_ascii_upper c \<longleftrightarrow> 65 \<le> c \<and> c \<le> 90"

definition to_upper :: "nat \<Rightarrow> nat" where
  "to_upper c = (if is_ascii_lower c then c - 32 else c)"

definition to_lower :: "nat \<Rightarrow> nat" where
  "to_lower c = (if is_ascii_upper c then c + 32 else c)"

definition upper :: "ustr \<Rightarrow> ustr" where
  "upper s = map to_upper s"

definition lower :: "ustr \<Rightarrow> ustr" where
  "lower s = map to_lower s"

text \<open>
  \<open>str.title\<close>: a cased character that follows a cased character is lowered, any
  other cased character is raised; the flag says whether the previous character was cased.
\<close>

fun title_from :: "bool \<Rightarrow> ustr \<Rightarrow> ustr" where
  "title_from prev [] = []"
| "title_from prev (c # cs) =
     (if is_ascii_lower c \<or> is_ascii_upper c
      then (if prev then to_lower c else to_upper c) # title_from True cs
      else c # title_from False cs)"

definition title :: "ustr \<Rightarrow> ustr" where
  "title s = title_from False s"

text \<open>\<open>str(n)\<close> for a natural number, and the format \<open>{n:03d}\<close>.\<close>

fun decimal :: "nat \<Rightarrow> ustr" where
  "decimal n = (if n < 10 then [48 + n] else decimal (n div 10) @ [48 + n mod 10])"

declare decimal.simps [simp del]

definition fmt_03d :: "nat \<Rightarrow> ustr" where
  "fmt_03d n = replicate (3 - length (decimal n)) 48 @ decimal n"

text \<open>\<open>d[k]\<close> on a dictionary raises \<open>KeyError\<close> for a missing key; \<open>xs[0]\<close> on a list
  raises \<open>IndexError\<close> when the list is empty.\<close>

definition subscript :: "('k \<times> 'v) list \<Rightarrow> 'k \<Rightarrow> py_error + 'v" where
  "subscript d k = (case map_of d k of None \<Rightarrow> Inl KeyError | Some v \<Rightarrow> Inr v)"

definition first_item :: "'a list \<Rightarrow> py_error + 'a" where
  "first_item xs = (case xs of [] \<Rightarrow> Inl IndexError | x # _ \<Rightarrow> Inr x)"

text \<open>\<open>enumerate(xs, start=n)\<close>.\<close>

definition enumerate_from :: "nat \<Rightarrow> 'a list \<Rightarrow> (nat \<times> 'a) list" where
  "enumerate_from n xs = zip [n ..< n + length xs] xs"

section \<open>Python floats\<close>

text \<open>
  A Python \<open>float\<close> is an IEEE 754 double. \<open>Finite x\<close> is the double whose value is
  the rational \<open>x\<close> (\<open>Finite 0\<close> is the positive zero, \<open>NegZero\<close> the negative one);
  the other values are the two infinities and not-a-number.
\<close>

datatype pyfloat = Finite rat | NegZero | PosInf | NegInf | NaN

text \<open>Rounding to the nearest integer, a tie going to the even one.\<close>

definition round_half_even :: "rat \<Rightarrow> int" where
  "round_half_even x =
     (let f = \<lfloor>x\<rfloor>; d = x - of_int f in
      if d < 1 / 2 then f else if 1 / 2 < d then f + 1 else if even f then f else f + 1)"

text \<open>\<open>int.bit_length\<close>, and with it the binary exponent \<open>\<lfloor>log\<^sub>2 x\<rfloor>\<close> of a positive
  rational.\<close>

fun bit_length :: "nat \<Rightarrow> nat" where
  "bit_length n = (if n = 0 then 0 else Suc (bit_length (n div 2)))"

declare bit_length.simps [simp del]

definition ilog2 :: "rat \<Rightarrow> int" where
  "ilog2 x =
     (if 1 \<le> x then int (bit_length (nat \<lfloor>x\<rfloor>)) - 1
      else - int (bit_length (nat (\<lceil>1 / x\<rceil> - 1))))"

definition pow2 :: "int \<Rightarrow> rat" where
  "pow2 k = (if 0 \<le> k then 2 ^ nat k else 1 / 2 ^ nat (- k))"

text \<open>
  The double nearest to a rational, as every float operation and every decimal
  literal rounds: 53 significant bits, a tie going to the even significand, the
  exponent not below that of the subnormal numbers, and an infinity from \<open>2^1024\<close> on.
\<close>

definition to_double :: "rat \<Rightarrow> pyfloat" where
  "to_double x =
     (if x = 0 then Finite 0
      else
        let a = \<bar>x\<bar>;
            q = pow2 (max (ilog2 a) (- 1022) - 52);
            v = of_int (round_half_even (a / q)) * q
        in if pow2 1024 \<le> v then (if x < 0 then NegInf else PosInf)
           else if v = 0 then (if x < 0 then NegZero else Finite 0)
           else Finite (if x < 0 then - v else v))"

definition is_zero :: "pyfloat \<Rightarrow> bool" where
  "is_zero x \<longleftrightarrow> x = Finite 0 \<or> x = NegZero"

definition is_inf :: "pyfloat \<Rightarrow> bool" where
  "is_inf x \<longleftrightarrow> x = PosInf \<or> x = NegInf"

definition sign_bit :: "pyfloat \<Rightarrow> bool" where
  "sign_bit x = (case x of Finite a \<Rightarrow> a < 0 | NegZero \<Rightarrow> True | NegInf \<Rightarrow> True | _ \<Rightarrow> False)"

text \<open>A float is true in a condition unless it is a zero; not-a-number is true.\<close>

definition float_truthy :: "pyfloat \<Rightarrow> bool" where
  "float_truthy x \<longleftrightarrow> \<not> is_zero x"

text \<open>The product \<open>x * y\<close> and the difference \<open>x - y\<close> of two floats.\<close>

definition float_mul :: "pyfloat \<Rightarrow> pyfloat \<Rightarrow> pyfloat" where
  "float_mul x y =
     (if x = NaN \<or> y = NaN then NaN
      else if is_inf x \<or> is_inf y then
        (if is_zero x \<or> is_zero y then NaN
         else if sign_bit x \<noteq> sign_bit y then NegInf else PosInf)
      else if is_zero x \<or> is_zero y then
        (if sign_bit x \<noteq> sign_bit y then NegZero else Finite 0)
      else case (x, y) of
             (Finite a, Finite b) \<Rightarrow> to_double (a * b)
           | _ \<Rightarrow> NaN)"

definition float_sub :: "pyfloat \<Rightarrow> pyfloat \<Rightarrow> pyfloat" where
  "float_sub x y =
     (if x = NaN \<or> y = NaN then NaN
      else if is_inf x then (if y = x then NaN else x)
      else if is_inf y then (if y = PosInf then NegInf else PosInf)
      else
        let a = (case x of Finite v \<Rightarrow> v | _ \<Rightarrow> 0);
            b = (case y of Finite v \<Rightarrow> v | _ \<Rightarrow> 0)
        in if a = b then (if x = NegZero \<and> y = Finite 0 then NegZero else Finite 0)
           else to_double (a - b))"

text \<open>
  \<open>round(x, n)\<close> for \<open>n \<ge> 0\<close>: the exact value of \<open>x\<close> is rounded to \<open>n\<close>
  decimals, a tie going to the even digit, and the decimal is read back as a double. An
  infinity and not-a-number are returned as they are; a zero result keeps the sign.
\<close>

definition round_nd :: "pyfloat \<Rightarrow> nat \<Rightarrow> pyfloat" where
  "round_nd x n =
     (case x of
        Finite a \<Rightarrow>
          (let r = of_int (round_half_even (a * 10 ^ n)) / 10 ^ n
           in if r = 0 then (if a < 0 then NegZero else Finite 0) else to_double r)
      | _ \<Rightarrow> x)"

text \<open>
  The comparisons \<open>x < y\<close> and \<open>x \<le> y\<close>: false whenever an operand is not-a-number;
  the two zeros are equal.
\<close>

definition float_key :: "pyfloat \<Rightarrow> int \<times> rat" where
  "float_key x =
     (case x of
        Finite a \<Rightarrow> (0, a) | NegZero \<Rightarrow> (0, 0) | PosInf \<Rightarrow> (1, 0) | NegInf \<Rightarrow> (- 1, 0)
      | NaN \<Rightarrow> (0, 0))"

definition float_lt :: "pyfloat \<Rightarrow> pyfloat \<Rightarrow> bool" where
  "float_lt x y \<longleftrightarrow>
     x \<noteq> NaN \<and> y \<noteq> NaN
     \<and> (fst (float_key x) < fst (float_key y)
        \<or> (fst (float_key x) = fst (float_key y) \<and> snd (float_key x) < snd (float_key y)))"

definition float_le :: "pyfloat \<Rightarrow> pyfloat \<Rightarrow> bool" where
  "float_le x y \<longleftrightarrow>
     x \<noteq> NaN \<and> y \<noteq> NaN
     \<and> (fst (float_key x) < fst (float_key y)
        \<or> (fst (float_key x) = fst (float_key y) \<and> snd (float_key x) \<le> snd (float_key y)))"

section \<open>\<open>int(s, 16)\<close>\<close>

text \<open>
  Python's \<open>int(s, 16)\<close> on a string: surrounding whitespace is ignored, then an optional
  sign, an optional \<open>0x\<close>/\<open>0X\<close> prefix, and hexadecimal digits, where single underscores
  may separate digits; anything else raises \<open>ValueError\<close>. The whitespace ignored here
  is that of \<open>str.isspace\<close> without the four separator controls U+001C to U+001F.
  Decimal digits of other scripts, which Python also accepts, are not modelled: they are
  rejected here.
\<close>

definition is_int_space :: "nat \<Rightarrow> bool" where
  "is_int_space c \<longleftrightarrow> is_space c \<and> \<not> (28 \<le> c \<and> c \<le> 31)"

definition int_strip :: "ustr \<Rightarrow> ustr" where
  "int_strip s = rev (dropWhile is_int_space (rev (dropWhile is_int_space s)))"

definition hex_digit_val :: "nat \<Rightarrow> nat option" where
  "hex_digit_val c =
     (if 48 \<le> c \<and> c \<le> 57 then Some (c - 48)
      else if 97 \<le> c \<and> c \<le> 102 then Some (c - 87)
      else if 65 \<le> c \<and> c \<le> 70 then Some (c - 55)
      else None)"

fun hex_digits_val :: "nat \<Rightarrow> ustr \<Rightarrow> nat option" where
  "hex_digits_val acc [] = None"
| "hex_digits_val acc [c] =
     (case hex_digit_val c of None \<Rightarrow> None | Some d \<Rightarrow> Some (16 * acc + d))"
| "hex_digits_val acc (c # c' # cs) =
     (case hex_digit_val c of
        None \<Rightarrow> None
      | Some d \<Rightarrow>
          if c' = 95 then hex_digits_val (16 * acc + d) cs
          else hex_digits_val (16 * acc + d) (c' # cs))"

definition strip_hex_prefix :: "ustr \<Rightarrow> ustr" where
  "strip_hex_prefix s =
     (case s of
        c0 # c1 # rest \<Rightarrow>
          if c0 = 48 \<and> (c1 = 120 \<or> c1 = 88)
          then (case rest of c2 # rest' \<Rightarrow> if c2 = 95 then rest' else rest | [] \<Rightarrow> rest)
          else s
      | _ \<Rightarrow> s)"

definition int16 :: "ustr \<Rightarrow> py_error + int" where
  "int16 s =
     (let t = int_strip s;
          (neg, body) = (case t of
                           c # cs \<Rightarrow> if c = 45 then (True, cs)
                                     else if c = 43 then (False, cs) else (False, t)
                         | [] \<Rightarrow> (False, t))
      in case hex_digits_val 0 (strip_hex_prefix body) of
           None \<Rightarrow> Inl ValueError
         | Some n \<Rightarrow> Inr (if neg then - int n else int n))"

section \<open>Colour conversion\<close>

record rgb_triple =
  rgb_r :: int
  rgb_g :: int
  rgb_b :: int

text \<open>
  \<open>_hex_to_rgb\<close>: strip leading \<open>#\<close> characters, answer black unless six characters
  remain, else read the three two-character groups with \<open>int(_, 16)\<close>, in the order
  r, g, b; the first group that does not parse raises.
\<close>

definition hex_to_rgb :: "ustr \<Rightarrow> py_error + rgb_triple" where
  "hex_to_rgb hex_color =
     (let h = lstrip_chars (u ''#'') hex_color in
      if length h \<noteq> 6 then Inr \<lparr>rgb_r = 0, rgb_g = 0, rgb_b = 0\<rparr>
      else case int16 (slice 0 2 h) of
        Inl e \<Rightarrow> Inl e
      | Inr rv \<Rightarrow>
         (case int16 (slice 2 4 h) of
            Inl e \<Rightarrow> Inl e
          | Inr gv \<Rightarrow>
             (case int16 (slice 4 6 h) of
                Inl e \<Rightarrow> Inl e
              | Inr bv \<Rightarrow> Inr \<lparr>rgb_r = rv, rgb_g = gv, rgb_b = bv\<rparr>)))"

section \<open>Style knowledge base\<close>

text \<open>
  The entries of \<open>STYLE_KNOWLEDGE\<close>: dictionaries with fixed keys become records, the
  dictionary of styles an association list in the source's order.
\<close>

record furniture_template =
  name :: ustr
  material :: ustr
  color :: ustr
  price_inr :: int
  category :: ustr
  placement :: ustr

record color_swatch =
  swatch_name :: ustr
  hex :: ustr
  usage :: ustr

record style_data =
  kb_furniture :: "furniture_template list"
  kb_color_scheme :: "color_swatch list"
  kb_tips :: "ustr list"

definition STYLE_KNOWLEDGE :: "(ustr \<times> style_data) list" where
  "STYLE_KNOWLEDGE = [
    (u ''Modern'',
     \<lparr>kb_furniture = [
        \<lparr>name = u ''Sectional Sofa'', material = u ''Microfibre'', color = u ''Slate Grey'',
          price_inr = 45000, category = u ''Seating'', placement = u ''against north wall''\<rparr>,
        \<lparr>name = u ''Glass Coffee Table'', material = u ''Tempered Glass'', color = u ''Clear/Chrome'',
          price_inr = 12000, category = u ''Table'', placement = u ''centre of seating area''\<rparr>,
        \<lparr>name = u ''Modular Bookshelf'', material = u ''MDF Lacquer'', color = u ''Matte White'',
          price_inr = 18000, category = u ''Storage'', placement = u ''east wall''\<rparr>,
        \<lparr>name = u ''Floor Lamp'', material = u ''Metal'', color = u ''Brushed Nickel'',
          price_inr = 5500, category = u ''Lighting'', placement = u ''beside sofa corner''\<rparr>,
        \<lparr>name = u ''Abstract Wall Art'', material = u ''Canvas'', color = u ''Multicolour'',
          price_inr = 8000, category = u ''Decor'', placement = u ''focal wall''\<rparr>],
      kb_color_scheme = [
        \<lparr>swatch_name = u ''Warm Ivory'', hex = u ''#F5F0E8'',
          usage = u ''Primary '' @ [8211] @ u '' walls''\<rparr>,
        \<lparr>swatch_name = u ''Slate Grey'', hex = u ''#708090'',
          usage = u ''Secondary '' @ [8211] @ u '' upholstery''\<rparr>,
        \<lparr>swatch_name = u ''Charcoal'', hex = u ''#36454F'',
          usage = u ''Accent '' @ [8211] @ u '' furniture frames''\<rparr>,
        \<lparr>swatch_name = u ''Brass Gold'', hex = u ''#C8922A'',
          usage = u ''Highlight '' @ [8211] @ u '' fixtures''\<rparr>],
      kb_tips = [
        u ''Keep lines clean and clutter-free '' @ [8212] @ u '' Modern style thrives on negative space.'',
        u ''Use statement lighting to define zones in open-plan layouts.'',
        u ''Incorporate one bold geometric rug to anchor the seating area.'']\<rparr>),
    (u ''Traditional'',
     \<lparr>kb_furniture = [
        \<lparr>name = u ''Teak Diwan'', material = u ''Solid Teak'', color = u ''Honey Brown'',
          price_inr = 35000, category = u ''Seating'', placement = u ''along east wall''\<rparr>,
        \<lparr>name = u ''Brass Lamp'', material = u ''Brass'', color = u ''Antique Gold'',
          price_inr = 7000, category = u ''Lighting'', placement = u ''puja corner''\<rparr>,
        \<lparr>name = u ''Carved Wooden Cabinet'', material = u ''Sheesham Wood'', color = u ''Dark Walnut'',
          price_inr = 55000, category = u ''Storage'', placement = u ''facing entrance''\<rparr>,
        \<lparr>name = u ''Jhoola (Swing)'', material = u ''Teak + Jute'', color = u ''Natural'',
          price_inr = 22000, category = u ''Seating'', placement = u ''verandah or corner''\<rparr>,
        \<lparr>name = u ''Madhubani Painting'', material = u ''Canvas'', color = u ''Earth Tones'',
          price_inr = 12000, category = u ''Decor'', placement = u ''main wall''\<rparr>],
      kb_color_scheme = [
        \<lparr>swatch_name = u ''Saffron'', hex = u ''#F4A460'',
          usage = u ''Primary '' @ [8211] @ u '' walls''\<rparr>,
        \<lparr>swatch_name = u ''Deep Maroon'', hex = u ''#800020'',
          usage = u ''Accent '' @ [8211] @ u '' textiles''\<rparr>,
        \<lparr>swatch_name = u ''Turmeric Gold'', hex = u ''#E3A857'',
          usage = u ''Highlight '' @ [8211] @ u '' brass accents''\<rparr>,
        \<lparr>swatch_name = u ''Ivory Cream'', hex = u ''#FFFFF0'',
          usage = u ''Secondary '' @ [8211] @ u '' ceiling''\<rparr>],
      kb_tips = [
        u ''Use natural materials '' @ [8212] @ u '' teak, jute, and terracotta '' @ [8212] @ u '' for an authentic feel.'',
        u ''Incorporate brass and copper vessels as decorative and spiritual elements.'',
        u ''Handloom textiles in block-print patterns elevate any traditional space.'']\<rparr>),
    (u ''Minimalist'',
     \<lparr>kb_furniture = [
        \<lparr>name = u ''Platform Bed'', material = u ''Birch Plywood'', color = u ''Natural Oak'',
          price_inr = 28000, category = u ''Sleeping'', placement = u ''centred on main wall''\<rparr>,
        \<lparr>name = u ''Floating Shelves'', material = u ''Bamboo'', color = u ''Light Natural'',
          price_inr = 6000, category = u ''Storage'', placement = u ''above desk''\<rparr>,
        \<lparr>name = u ''Wire Chair'', material = u ''Steel Wire'', color = u ''Matte Black'',
          price_inr = 9500, category = u ''Seating'', placement = u ''reading corner''\<rparr>,
        \<lparr>name = u ''Linen Curtains'', material = u ''Linen'', color = u ''Off-White'',
          price_inr = 4500, category = u ''Soft Furnishings'', placement = u ''all windows''\<rparr>],
      kb_color_scheme = [
        \<lparr>swatch_name = u ''Snow White'', hex = u ''#FFFAFA'',
          usage = u ''Primary '' @ [8211] @ u '' walls '' @ [38] @ u '' ceiling''\<rparr>,
        \<lparr>swatch_name = u ''Warm Beige'', hex = u ''#F5F5DC'',
          usage = u ''Secondary '' @ [8211] @ u '' textiles''\<rparr>,
        \<lparr>swatch_name = u ''Charcoal Black'', hex = u ''#2F2F2F'',
          usage = u ''Accent '' @ [8211] @ u '' thin frames''\<rparr>,
        \<lparr>swatch_name = u ''Sage Green'', hex = u ''#B2C2B2'',
          usage = u ''Nature accent '' @ [8211] @ u '' single plant''\<rparr>],
      kb_tips = [
        u ''Follow the '' @ [39] @ u ''one in, one out'' @ [39] @ u '' rule '' @ [8212] @ u '' remove one item before adding another.'',
        u ''A single large indoor plant adds life without visual noise.'',
        u ''Hidden storage is essential '' @ [8212] @ u '' choose furniture with integrated compartments.'']\<rparr>),
    (u ''Bohemian'',
     \<lparr>kb_furniture = [
        \<lparr>name = u ''Rattan Peacock Chair'', material = u ''Rattan'', color = u ''Natural Honey'',
          price_inr = 15000, category = u ''Seating'', placement = u ''window corner''\<rparr>,
        \<lparr>name = u ''Moroccan Poufs'', material = u ''Leather'', color = u ''Caramel'',
          price_inr = 5000, category = u ''Seating'', placement = u ''around coffee table''\<rparr>,
        \<lparr>name = u ''Macram'' @ [233] @ u '' Wall Hanging'', material = u ''Cotton Rope'', color = u ''Cream'',
          price_inr = 3500, category = u ''Decor'', placement = u ''feature wall''\<rparr>,
        \<lparr>name = u ''Vintage Trunk'', material = u ''Wood + Leather'', color = u ''Brown Patina'',
          price_inr = 11000, category = u ''Storage'', placement = u ''foot of bed''\<rparr>,
        \<lparr>name = u ''Persian Rug'', material = u ''Wool'', color = u ''Multi-Jewel'',
          price_inr = 20000, category = u ''Textiles'', placement = u ''centre of room''\<rparr>],
      kb_color_scheme = [
        \<lparr>swatch_name = u ''Terracotta'', hex = u ''#C4603A'',
          usage = u ''Primary '' @ [8211] @ u '' walls '' @ [38] @ u '' pots''\<rparr>,
        \<lparr>swatch_name = u ''Mustard Yellow'', hex = u ''#FFDB58'',
          usage = u ''Accent '' @ [8211] @ u '' cushions '' @ [38] @ u '' throws''\<rparr>,
        \<lparr>swatch_name = u ''Forest Green'', hex = u ''#228B22'',
          usage = u ''Nature '' @ [8211] @ u '' plants '' @ [38] @ u '' textiles''\<rparr>,
        \<lparr>swatch_name = u ''Deep Teal'', hex = u ''#008080'',
          usage = u ''Contrast '' @ [8211] @ u '' feature items''\<rparr>],
      kb_tips = [
        u ''Layer multiple rugs and textiles '' @ [8212] @ u '' Boho is all about rich, tactile depth.'',
        u ''Collect globally: mix Rajasthani block-prints with Mexican woven textiles.'',
        u ''String lights or Moroccan lanterns create warm, dappled evening ambience.'']\<rparr>),
    (u ''Haveli'',
     \<lparr>kb_furniture = [
        \<lparr>name = u ''Carved Jharokha Frame'', material = u ''Rajasthani Teak'', color = u ''Deep Brown'',
          price_inr = 65000, category = u ''Architectural'', placement = u ''feature wall''\<rparr>,
        \<lparr>name = u ''Mughal-style Charpai'', material = u ''Iron + Jute'', color = u ''Black/Natural'',
          price_inr = 18000, category = u ''Seating'', placement = u ''courtyard or room''\<rparr>,
        \<lparr>name = u ''Meenakari Lamp'', material = u ''Copper/Enamel'', color = u ''Jewel tones'',
          price_inr = 9000, category = u ''Lighting'', placement = u ''entrance hall''\<rparr>,
        \<lparr>name = u ''Antique Almari'', material = u ''Sheesham'', color = u ''Aged Teak'',
          price_inr = 75000, category = u ''Storage'', placement = u ''master bedroom''\<rparr>],
      kb_color_scheme = [
        \<lparr>swatch_name = u ''Royal Blue'', hex = u ''#4169E1'',
          usage = u ''Feature '' @ [8211] @ u '' painted niches''\<rparr>,
        \<lparr>swatch_name = u ''Saffron Orange'', hex = u ''#FF6700'',
          usage = u ''Primary '' @ [8211] @ u '' Rajasthani tradition''\<rparr>,
        \<lparr>swatch_name = u ''Ivory Stone'', hex = u ''#FFFFF0'',
          usage = u ''Base '' @ [8211] @ u '' lime-washed walls''\<rparr>,
        \<lparr>swatch_name = u ''Forest Green'', hex = u ''#355E3B'',
          usage = u ''Secondary '' @ [8211] @ u '' peacock motifs''\<rparr>],
      kb_tips = [
        u ''Introduce jaali (lattice) screens to filter light and create shadow patterns.'',
        u ''Blue pottery from Jaipur and Pichwai paintings are quintessential Haveli accents.'',
        u ''A central chowk (courtyard-like space) with a water feature anchors the space.'']\<rparr>)]"

definition DEFAULT_STYLE :: ustr where
  "DEFAULT_STYLE = u ''Modern''"

text \<open>
  \<open>_get_style_data\<close>: \<open>STYLE_KNOWLEDGE.get(style, STYLE_KNOWLEDGE[_DEFAULT_STYLE])\<close>.
  The default argument is evaluated first, by subscript.
\<close>

definition get_style_data :: "ustr \<Rightarrow> py_error + style_data" where
  "get_style_data style =
     (case subscript STYLE_KNOWLEDGE DEFAULT_STYLE of
        Inl e \<Rightarrow> Inl e
      | Inr dflt \<Rightarrow>
          Inr (case map_of STYLE_KNOWLEDGE style of None \<Rightarrow> dflt | Some d \<Rightarrow> d))"

section \<open>The environment of the engine\<close>

text \<open>
  Python's \<open>random\<close> module keeps one hidden generator state, of type \<open>'g\<close> here. The
  module is a parameter of the model: \<open>rng_seed n\<close> is the state after
  \<open>random.seed(n)\<close>, the other operations take the state and return the drawn value
  with the next state. \<open>rng_sample n k\<close> draws the positions of \<open>k\<close> elements of a
  population of \<open>n\<close>, in the order \<open>random.sample\<close> returns them.
\<close>

record 'g random_module =
  rng_seed :: "int \<Rightarrow> 'g"
  rng_randint :: "int \<Rightarrow> int \<Rightarrow> 'g \<Rightarrow> int \<times> 'g"
  rng_sample :: "nat \<Rightarrow> nat \<Rightarrow> 'g \<Rightarrow> nat list \<times> 'g"
  rng_uniform :: "pyfloat \<Rightarrow> pyfloat \<Rightarrow> 'g \<Rightarrow> pyfloat \<times> 'g"

text \<open>
  What the library guarantees: \<open>randint(a, b)\<close> lies in \<open>[a, b]\<close>, and a sample
  of \<open>k \<le> n\<close> elements is \<open>k\<close> distinct positions below \<open>n\<close>.
\<close>

definition random_contract :: "'g random_module \<Rightarrow> bool" where
  "random_contract lib \<longleftrightarrow>
     (\<forall>a b gs. a \<le> b \<longrightarrow> a \<le> fst (rng_randint lib a b gs) \<and> fst (rng_randint lib a b gs) \<le> b)
     \<and> (\<forall>n k gs. k \<le> n \<longrightarrow>
           length (fst (rng_sample lib n k gs)) = k
           \<and> distinct (fst (rng_sample lib n k gs))
           \<and> (\<forall>i \<in> set (fst (rng_sample lib n k gs)). i < n))"

text \<open>\<open>random.sample(population, k)\<close> raises \<open>ValueError\<close> when \<open>k\<close> is negative or
  larger than the population.\<close>

definition random_sample ::
  "'g random_module \<Rightarrow> 'a list \<Rightarrow> int \<Rightarrow> 'g \<Rightarrow> py_error + ('a list \<times> 'g)" where
  "random_sample lib population k gs =
     (if k < 0 \<or> int (length population) < k then Inl ValueError
      else let (pos, gs') = rng_sample lib (length population) (nat k) gs
           in Inr (map (\<lambda>i. population ! i) pos, gs'))"

text \<open>
  The state outside the program that a call reads and changes: the generator state of
  the \<open>random\<close> module, the entropy source behind \<open>uuid.uuid4\<close> (which is not the
  \<open>random\<close> module's generator and is never seeded), and the performance counter.
\<close>

record ('g, 'e, 'c) world =
  rng_state :: 'g
  entropy :: 'e
  clock :: 'c

section \<open>The mock generator\<close>

record furniture_item = furniture_template +
  item_id :: ustr
  quantity :: int
  available :: bool
  priority :: ustr

record color_entry = color_swatch +
  rgb :: rgb_triple
  coverage_percent :: pyfloat

record project_meta_rec =
  style :: ustr
  room_type :: ustr
  room_area_sqft :: "pyfloat option"
  analysis_id :: ustr
  confidence :: pyfloat
  processing_time_ms :: int
  model :: ustr
  image_caption :: "ustr option"
  wall_clock_ms :: "pyfloat option"

record placement_rec =
  strategy :: ustr
  plan_notes :: "ustr list"
  traffic_flow :: ustr
  natural_light_score :: pyfloat

text \<open>
  The result. The key \<open>placement\<close> of the result is the field \<open>placement_plan\<close> (a
  furniture template has a key \<open>placement\<close> too) and the key \<open>notes\<close> of the plan is
  \<open>plan_notes\<close>; the budget stays a dictionary, in
  insertion order, since the code sums its values. The optional keys
  \<open>image_caption\<close> and \<open>wall_clock_ms\<close> are \<open>None\<close> while absent.
\<close>

record design =
  project_meta :: project_meta_rec
  furniture :: "furniture_item list"
  color_scheme :: "color_entry list"
  placement_plan :: placement_rec
  design_tips :: "ustr list"
  estimated_budget_inr :: "(ustr \<times> int) list"

text \<open>
  \<open>dimensions\<close>: what \<open>dimensions.get("length")\<close> and \<open>dimensions.get("width")\<close>
  give, \<open>None\<close> for a missing key; the values are floats, as the interface declares
  and the caller passes them, so \<open>float(_)\<close> returns them as they are. \<open>truthy\<close> is
  the value as a condition.
\<close>

record dimensions =
  dim_length :: "pyfloat option"
  dim_width :: "pyfloat option"

definition truthy :: "pyfloat option \<Rightarrow> bool" where
  "truthy v = (case v of None \<Rightarrow> False | Some x \<Rightarrow> float_truthy x)"

text \<open>
  \<open>room_area\<close>: \<open>None\<close> unless \<open>dimensions\<close>, its length and its width are all true
  in the condition; then \<open>round(l * w, 1)\<close>, with the product and the rounding of floats.
\<close>

definition room_area_of :: "dimensions option \<Rightarrow> pyfloat option" where
  "room_area_of dims =
     (case dims of
        None \<Rightarrow> None
      | Some d \<Rightarrow>
          if truthy (dim_length d) \<and> truthy (dim_width d)
          then Some (round_nd (float_mul (the (dim_length d)) (the (dim_width d))) 1)
          else None)"

text \<open>The body of the loop that builds \<open>furniture_output\<close>, for index \<open>i\<close>.\<close>

definition furniture_entry :: "ustr \<Rightarrow> nat \<times> furniture_template \<Rightarrow> furniture_item" where
  "furniture_entry sty p =
     (case p of (i, item) \<Rightarrow>
       \<lparr>name = name item, material = material item, color = color item,
        price_inr = price_inr item, category = category item, placement = placement item,
        item_id = u ''FURN-'' @ upper (slice 0 3 sty) @ u ''-'' @ fmt_03d i,
        quantity = 1, available = True,
        priority = (if i = 1 then u ''recommended'' else u ''optional'')\<rparr>)"

text \<open>\<open>room_area or 0\<close>: zero when there is no area or the area is a zero.\<close>

definition area_or_zero :: "pyfloat option \<Rightarrow> pyfloat" where
  "area_or_zero room_area =
     (case room_area of
        None \<Rightarrow> Finite 0
      | Some a \<Rightarrow> if float_truthy a then a else Finite 0)"

text \<open>The notes chosen by the area band.\<close>

definition area_notes :: "pyfloat \<Rightarrow> ustr list" where
  "area_notes room_area =
     (if float_lt room_area (Finite 100) then
        [u ''Small room: prioritise wall-mounted storage to free floor space.'',
         u ''Use mirrors to create an illusion of depth and light.'']
      else if float_lt room_area (Finite 200) then
        [u ''Medium room: an L-shaped sofa arrangement works well here.'',
         u ''Consider a centrally anchored area rug to define zones.'']
      else
        [u ''Large room: divide into functional zones '' @ [8212] @ u '' seating, dining, and reading.'',
         u ''Use a statement chandelier to visually centre the space.''])"

definition fixed_notes :: "ustr \<Rightarrow> ustr \<Rightarrow> ustr list" where
  "fixed_notes sty tip =
     [u ''Ensure at least 90 cm clearance between all walkways for comfortable circulation.'',
      u ''Position seating to face the primary light source (window/natural light).'',
      u ''For '' @ sty @ u '' style: '' @ tip]"

text \<open>
  The comprehension that builds \<open>color_scheme\<close>: for each swatch, in order, the RGB
  conversion (which may raise) and then one draw for the coverage.
\<close>

fun color_entries ::
  "'g random_module \<Rightarrow> color_swatch list \<Rightarrow> 'g \<Rightarrow> (py_error + color_entry list) \<times> 'g" where
  "color_entries lib [] gs = (Inr [], gs)"
| "color_entries lib (c # cs) gs =
     (case hex_to_rgb (hex c) of
        Inl e \<Rightarrow> (Inl e, gs)
      | Inr v \<Rightarrow>
          (case rng_uniform lib (Finite 15) (Finite 45) gs of (x, gs1) \<Rightarrow>
            (case color_entries lib cs gs1 of
               (Inl e, gs2) \<Rightarrow> (Inl e, gs2)
             | (Inr rest, gs2) \<Rightarrow>
                 (Inr (\<lparr>swatch_name = swatch_name c, hex = hex c, usage = usage c,
                        rgb = v, coverage_percent = round_nd x 1\<rparr> # rest), gs2))))"

text \<open>
  \<open>_mock_generate\<close>. The draws are in the order in which Python evaluates the body:
  the seed, the item count, the sample, then inside the result literal the UUID, the
  confidence, the processing time, one coverage per swatch, the light score, the labour
  and the miscellaneous estimates. The incoming generator state is overwritten by the seed.
\<close>

definition mock_generate ::
  "'g random_module \<Rightarrow> ('e \<Rightarrow> ustr \<times> 'e) \<Rightarrow> ustr \<Rightarrow> ustr \<Rightarrow> ustr \<Rightarrow> dimensions option
     \<Rightarrow> ('g, 'e, 'c) world \<Rightarrow> (py_error + design) \<times> ('g, 'e, 'c) world" where
  "mock_generate lib uuid4 image_path sty rtype dims w =
     (let g0 = rng_seed lib (int (length image_path) + int (length sty));
          w0 = w\<lparr>rng_state := g0\<rparr>
      in case get_style_data sty of
        Inl e \<Rightarrow> (Inl e, w0)
      | Inr sd \<Rightarrow>
         (let (k, g1) = rng_randint lib 3 4 g0;
              n_items = min (int (length (kb_furniture sd))) k
          in case random_sample lib (kb_furniture sd) n_items g1 of
            Inl e \<Rightarrow> (Inl e, w\<lparr>rng_state := g1\<rparr>)
          | Inr (furniture_picks, g2) \<Rightarrow>
             (let furniture_output = map (furniture_entry sty) (enumerate_from 1 furniture_picks);
                  room_area = room_area_of dims;
                  band_notes = (case room_area of None \<Rightarrow> [] | Some a \<Rightarrow> area_notes a)
              in case first_item (kb_tips sd) of
                Inl e \<Rightarrow> (Inl e, w\<lparr>rng_state := g2\<rparr>)
              | Inr tip \<Rightarrow>
                 (let placement_notes = band_notes @ fixed_notes sty tip;
                      (uid, e1) = uuid4 (entropy w);
                      (conf, g3) = rng_uniform lib (to_double (39 / 50)) (to_double (24 / 25)) g2;
                      (ptime, g4) = rng_randint lib 800 2400 g3
                  in case color_entries lib (kb_color_scheme sd) g4 of
                    (Inl e, g5) \<Rightarrow> (Inl e, w\<lparr>rng_state := g5, entropy := e1\<rparr>)
                  | (Inr colors, g5) \<Rightarrow>
                     (let (light, g6) = rng_uniform lib (to_double (11 / 2)) (to_double (19 / 2)) g5;
                          (labour, g7) = rng_randint lib 15000 45000 g6;
                          (misc, g8) = rng_randint lib 5000 15000 g7;
                          budget =
                            [(u ''furniture_total'', sum_list (map price_inr furniture_picks)),
                             (u ''labour_estimate'', labour),
                             (u ''miscellaneous'', misc)];
                          result =
                            \<lparr>project_meta =
                               \<lparr>style = sty, room_type = rtype, room_area_sqft = room_area,
                                analysis_id = uid, confidence = round_nd conf 3,
                                processing_time_ms = ptime, model = u ''GruhaAI-Mock-v1.0'',
                                image_caption = None, wall_clock_ms = None\<rparr>,
                             furniture = furniture_output,
                             color_scheme = colors,
                             placement_plan =
                               \<lparr>strategy =
                                  (if float_lt (Finite 150) (area_or_zero room_area)
                                   then u ''zone-based'' else u ''single-zone''),
                                plan_notes = placement_notes,
                                traffic_flow =
                                  (if sty = u ''Modern'' \<or> sty = u ''Minimalist''
                                   then u ''U-shape'' else u ''open-plan''),
                                natural_light_score = round_nd light 1\<rparr>,
                             design_tips = kb_tips sd,
                             estimated_budget_inr = budget\<rparr>
                      in (Inr (result\<lparr>estimated_budget_inr :=
                                 estimated_budget_inr result
                                   @ [(u ''grand_total'',
                                       sum_list (map snd (estimated_budget_inr result)))]\<rparr>),
                          w\<lparr>rng_state := g8, entropy := e1\<rparr>))))))"

section \<open>The real generator and the public entry point\<close>

text \<open>
  What the captioning step of \<open>_real_generate\<close> can do (the imports, the model
  pipeline and the image decoding are outside the program): fail with \<open>ImportError\<close>,
  fail with another exception, or return the caption list, of which only the first
  caption is read (\<open>None\<close> for an empty list).
\<close>

datatype caption_outcome = CaptionImportError | CaptionError | Caption "ustr option"

text \<open>
  The platform of a call: the \<open>random\<close> module, \<open>str(uuid.uuid4())\<close> on the entropy
  source, \<open>time.perf_counter\<close>, \<open>os.path.isfile\<close>, the application's setting
  \<open>AI_USE_MOCK\<close> (\<open>None\<close> outside an application context, \<open>Some None\<close> when the
  key is not set) and the captioning step.
\<close>

record ('g, 'e, 'c) platform =
  plat_random :: "'g random_module"
  plat_uuid4 :: "'e \<Rightarrow> ustr \<times> 'e"
  plat_perf_counter :: "'c \<Rightarrow> pyfloat \<times> 'c"
  plat_isfile :: "ustr \<Rightarrow> bool"
  plat_config :: "bool option option"
  plat_captioner :: "ustr \<Rightarrow> caption_outcome"

text \<open>
  \<open>_real_generate\<close>: on a caption, the mock result with the model name and the caption
  written into \<open>project_meta\<close>; on any exception inside the \<open>try\<close> block, the mock
  generator alone. An exception of the mock generator inside the block is caught by the
  same handlers, which call the mock generator again.
\<close>

definition real_generate ::
  "('g, 'e, 'c) platform \<Rightarrow> ustr \<Rightarrow> ustr \<Rightarrow> ustr \<Rightarrow> dimensions option
     \<Rightarrow> ('g, 'e, 'c) world \<Rightarrow> (py_error + design) \<times> ('g, 'e, 'c) world" where
  "real_generate plat image_path sty rtype dims w =
     (case plat_captioner plat image_path of
        Caption caption_result \<Rightarrow>
          (let caption = (case caption_result of
                            None \<Rightarrow> u ''a room interior''
                          | Some t \<Rightarrow> t)
           in case mock_generate (plat_random plat) (plat_uuid4 plat) image_path sty rtype dims w of
                (Inr result, w1) \<Rightarrow>
                  (Inr (result\<lparr>project_meta := (project_meta result)
                          \<lparr>model := u ''BLIP-image-captioning-base'',
                           image_caption := Some caption\<rparr>\<rparr>), w1)
              | (Inl e, w1) \<Rightarrow>
                  mock_generate (plat_random plat) (plat_uuid4 plat) image_path sty rtype dims w1)
      | CaptionImportError \<Rightarrow>
          mock_generate (plat_random plat) (plat_uuid4 plat) image_path sty rtype dims w
      | CaptionError \<Rightarrow>
          mock_generate (plat_random plat) (plat_uuid4 plat) image_path sty rtype dims w)"

text \<open>
  The normalisation of the style at the head of \<open>generate_design\<close>: trimmed and in
  title case, and replaced by the default when the dictionary has no such key.
\<close>

definition normalize_style :: "ustr \<Rightarrow> ustr" where
  "normalize_style sty =
     (let sty1 = title (strip sty)
      in if sty1 \<in> set (map fst STYLE_KNOWLEDGE) then sty1 else DEFAULT_STYLE)"

text \<open>
  \<open>generate_design\<close>. The file test comes first and raises before anything else is
  evaluated. \<open>use_mock\<close> is \<open>None\<close> when the caller leaves it out.
\<close>

definition generate_design ::
  "('g, 'e, 'c) platform \<Rightarrow> ustr \<Rightarrow> ustr \<Rightarrow> ustr \<Rightarrow> dimensions option \<Rightarrow> bool option
     \<Rightarrow> ('g, 'e, 'c) world \<Rightarrow> (py_error + design) \<times> ('g, 'e, 'c) world" where
  "generate_design plat image_path sty rtype dims use_mock w =
     (if \<not> plat_isfile plat image_path then (Inl FileNotFoundError, w)
      else
        let sty2 = normalize_style sty;
            use_mock1 =
              (case use_mock of
                 Some flag \<Rightarrow> flag
               | None \<Rightarrow>
                   (case plat_config plat of
                      None \<Rightarrow> True
                    | Some None \<Rightarrow> True
                    | Some (Some flag) \<Rightarrow> flag));
            (start, c1) = plat_perf_counter plat (clock w)
        in case (if use_mock1
                 then mock_generate (plat_random plat) (plat_uuid4 plat)
                        image_path sty2 rtype dims (w\<lparr>clock := c1\<rparr>)
                 else real_generate plat image_path sty2 rtype dims (w\<lparr>clock := c1\<rparr>)) of
             (Inl e, w1) \<Rightarrow> (Inl e, w1)
           | (Inr result, w1) \<Rightarrow>
              (let (stop, c2) = plat_perf_counter plat (clock w1);
                   elapsed_ms = round_nd (float_mul (float_sub stop start) (Finite 1000)) 1
               in (Inr (result\<lparr>project_meta :=
                          (project_meta result)\<lparr>wall_clock_ms := Some elapsed_ms\<rparr>\<rparr>),
                   w1\<lparr>clock := c2\<rparr>)))"

section \<open>The voice agent\<close>

text \<open>\<open>DESIGN_FAQ\<close> and \<open>VoiceAgent.LANG_GREETINGS\<close>, dictionaries in the source's order.\<close>

definition DESIGN_FAQ :: "(ustr \<times> ustr) list" where
  "DESIGN_FAQ = [
    (u ''vastu'',
     u ''Vastu Shastra recommends placing the main entrance facing north or east for positive energy. The master bedroom should be in the south-west.''),
    (u ''color living'',
     u ''For living rooms, warm neutrals like ivory and beige create welcoming spaces. Accent with teal or gold for an Indian-modern aesthetic.''),
    (u ''small room'',
     u ''For small rooms: use mirrors, multifunctional furniture, vertical storage, and light colours to create an illusion of space.''),
    (u ''bedroom sleep'',
     u ''For better sleep, avoid bright colours. Opt for blues, greys, and muted tones. Keep electronics away from the bed.''),
    (u ''kitchen'',
     u ''For modular kitchens, the work triangle (fridge-hob-sink) should be under 7 metres total. Light wood or white laminates keep it bright.''),
    (u ''budget'',
     u ''A 2BHK full interior in India typically costs '' @ [8377] @ u ''5'' @ [8211] @ u ''15 lakhs depending on quality. Modular furniture reduces cost vs. custom carpentry.''),
    (u ''plants'',
     u ''Indoor plants like Monstera, Peace Lily, and Snake Plant improve air quality and add biophilic beauty to any Indian home.'')]"

definition LANG_GREETINGS :: "(ustr \<times> ustr) list" where
  "LANG_GREETINGS = [
    (u ''en'',
     u ''Hello! I am Gruha Alankara'' @ [39] @ u ''s interior design assistant. How can I help you?''),
    (u ''hi'',
     [2344, 2350, 2360, 2381, 2340, 2375] @ u ''! '' @ [2350, 2376, 2306] @ u '' '' @ [2327, 2371, 2361] @ u '' '' @ [2309, 2354, 2306, 2325, 2366, 2352] @ u '' '' @ [2325, 2366] @ u '' '' @ [2311, 2306, 2335, 2368, 2352, 2367, 2351, 2352] @ u '' '' @ [2337, 2367, 2332, 2364, 2366, 2311, 2344] @ u '' '' @ [2360, 2361, 2366, 2351, 2325] @ u '' '' @ [2361, 2370, 2306, 2404] @ u '' '' @ [2350, 2376, 2306] @ u '' '' @ [2310, 2346, 2325, 2368] @ u '' '' @ [2325, 2376, 2360, 2375] @ u '' '' @ [2350, 2342, 2342] @ u '' '' @ [2325, 2352] @ u '' '' @ [2360, 2325, 2340, 2366] @ u '' '' @ [2361, 2370, 2306] @ u ''?''),
    (u ''te'',
     [3112, 3118, 3128, 3149, 3093, 3134, 3120, 3074] @ u ''! '' @ [3112, 3143, 3112, 3137] @ u '' '' @ [3095, 3139, 3129] @ u '' '' @ [3077, 3122, 3074, 3093, 3134, 3120] @ u '' '' @ [3079, 3074, 3103, 3136, 3120, 3135, 3119, 3120, 3149] @ u '' '' @ [3105, 3135, 3100, 3144, 3112, 3149] @ u '' '' @ [3077, 3128, 3135, 3128, 3149, 3103, 3142, 3074, 3103, 3149] @ u '' '' @ [3112, 3135] @ u ''. '' @ [3112, 3143, 3112, 3137] @ u '' '' @ [3118, 3136, 3093, 3137] @ u '' '' @ [3086, 3122, 3134] @ u '' '' @ [3128, 3129, 3134, 3119, 3074] @ u '' '' @ [3098, 3143, 3119, 3095, 3122, 3112, 3137] @ u ''?'')]"

text \<open>\<open>sub in s\<close> on strings: \<open>sub\<close> occurs in \<open>s\<close> as a contiguous piece.\<close>

fun contains :: "ustr \<Rightarrow> ustr \<Rightarrow> bool" where
  "contains [] sub = (sub = [])"
| "contains (c # cs) sub = (take (length sub) (c # cs) = sub \<or> contains cs sub)"

text \<open>
  \<open>s.split()\<close>: the maximal runs of characters that are not whitespace, in order; the
  first argument is the run being read.
\<close>

fun split_from :: "ustr \<Rightarrow> ustr \<Rightarrow> ustr list" where
  "split_from cur [] = (if cur = [] then [] else [cur])"
| "split_from cur (c # cs) =
     (if is_space c then (if cur = [] then split_from [] cs else cur # split_from [] cs)
      else split_from (cur @ [c]) cs)"

definition split :: "ustr \<Rightarrow> ustr list" where
  "split s = split_from [] s"

text \<open>
  The conversation chain is outside the program: \<open>lc_build\<close> is what constructing it
  gives (an exception when the library is missing or the constructor fails), and
  \<open>lc_predict\<close> answers a query or raises, and updates the chain's memory.
\<close>

record 'c langchain =
  lc_build :: "py_error + 'c"
  lc_predict :: "'c \<Rightarrow> ustr \<Rightarrow> (py_error + ustr) \<times> 'c"

text \<open>The agent object: its cached chain, \<open>None\<close> until one has been built.\<close>

record 'c voice_agent =
  chain :: "'c option"

text \<open>\<open>VoiceAgent._build_chain\<close>: the cached chain, or a fresh one; any exception while
  building leaves \<open>None\<close>.\<close>

definition build_chain :: "'c langchain \<Rightarrow> 'c voice_agent \<Rightarrow> 'c option \<times> 'c voice_agent" where
  "build_chain lc agent =
     (case chain agent of
        Some c \<Rightarrow> (Some c, agent)
      | None \<Rightarrow>
          (case lc_build lc of
             Inr c \<Rightarrow> (Some c, agent\<lparr>chain := Some c\<rparr>)
           | Inl e \<Rightarrow> (None, agent\<lparr>chain := None\<rparr>)))"

text \<open>\<open>VoiceAgent._fallback_answer\<close>.\<close>

definition fallback_answer :: "ustr \<Rightarrow> ustr" where
  "fallback_answer query =
     (if list_ex (contains query) [u ''color'', u ''colour'', u ''paint''] then
        u ''Warm neutrals like ivory, beige, and warm white work well for most Indian homes. ''
        @ u ''Add character with a single accent wall in teal, terracotta, or deep blue.''
      else if list_ex (contains query) [u ''furniture'', u ''sofa'', u ''bed'', u ''chair''] then
        u ''When selecting furniture, consider the room'' @ [39] @ u ''s proportion first. ''
        @ u ''In India, teak and sheesham are durable choices; for modern looks, ''
        @ u ''engineered wood with laminates is cost-effective and attractive.''
      else if list_ex (contains query) [u ''light'', u ''lamp'', u ''brightness''] then
        u ''Layer your lighting: ambient (ceiling), task (work areas), and accent ''
        @ u ''(decorative). Warm white LEDs (2700'' @ [8211] @ u ''3000K) suit living and bedrooms; ''
        @ u ''cool white (4000K) suits kitchens and offices.''
      else
        u ''Thank you for your question! Gruha Alankara'' @ [39] @ u ''s AI specialises in interior design. ''
        @ u ''Please ask about furniture selection, colour schemes, Vastu guidelines, ''
        @ u ''or room layout suggestions.'')"

text \<open>
  \<open>VoiceAgent.answer\<close>: the first FAQ keyword contained in the lowered query gives the
  response; when the loop finds none, the chain, and the rule-based answer when there is
  no chain or its prediction raises. A query of at most two words then gets the greeting
  of the language instead. The default of \<open>LANG_GREETINGS.get\<close> is read by subscript.
\<close>

definition answer ::
  "'c langchain \<Rightarrow> 'c voice_agent \<Rightarrow> ustr \<Rightarrow> ustr \<Rightarrow> (py_error + ustr) \<times> 'c voice_agent" where
  "answer lc agent query language =
     (let query_lower = lower query;
          (response, agent1) =
            (case find (\<lambda>entry. contains query_lower (fst entry)) DESIGN_FAQ of
               Some entry \<Rightarrow> (snd entry, agent)
             | None \<Rightarrow>
                 (case build_chain lc agent of
                    (Some c, agent0) \<Rightarrow>
                      (case lc_predict lc c query of
                         (Inr text, c1) \<Rightarrow> (text, agent0\<lparr>chain := Some c1\<rparr>)
                       | (Inl e, c1) \<Rightarrow> (fallback_answer query_lower, agent0\<lparr>chain := Some c1\<rparr>))
                  | (None, agent0) \<Rightarrow> (fallback_answer query_lower, agent0)))
      in if length (split (strip query)) \<le> 2 then
           (case subscript LANG_GREETINGS (u ''en'') of
              Inl e \<Rightarrow> (Inl e, agent1)
            | Inr dflt \<Rightarrow>
                (Inr (case map_of LANG_GREETINGS language of None \<Rightarrow> dflt | Some greeting \<Rightarrow> greeting),
                 agent1))
         else (Inr response, agent1))"

section \<open>The speech engine\<close>

text \<open>\<open>TTSEngine.SUPPORTED_LANGS\<close>.\<close>

definition SUPPORTED_LANGS :: "(ustr \<times> ustr) list" where
  "SUPPORTED_LANGS = [
    (u ''en'', u ''en''),
    (u ''hi'', u ''hi''),
    (u ''te'', u ''te''),
    (u ''english'', u ''en''),
    (u ''hindi'', u ''hi''),
    (u ''telugu'', u ''te'')]"

text \<open>\<open>s.replace(old, new)\<close> for a non-empty \<open>old\<close>: every occurrence, from the left,
  without overlap.\<close>

function replace :: "ustr \<Rightarrow> ustr \<Rightarrow> ustr \<Rightarrow> ustr" where
  "replace old new s =
     (if s = [] \<or> old = [] then s
      else if take (length old) s = old then new @ replace old new (drop (length old) s)
      else hd s # replace old new (tl s))"
  by pat_completeness auto
termination
  by (relation "measure (\<lambda>(old, new, s). length s)") (auto simp: neq_Nil_conv)

declare replace.simps [simp del]

text \<open>\<open>os.path.join\<close> and \<open>os.path.dirname\<close> on POSIX paths.\<close>

definition path_join :: "ustr \<Rightarrow> ustr \<Rightarrow> ustr" where
  "path_join a b =
     (if take 1 b = u ''/'' then b
      else if a = [] \<or> last a = 47 then a @ b
      else a @ u ''/'' @ b)"

definition dirname :: "ustr \<Rightarrow> ustr" where
  "dirname path =
     (let head = rev (dropWhile (\<lambda>c. c \<noteq> 47) (rev path))
      in if head \<noteq> [] \<and> \<not> list_all (\<lambda>c. c = 47) head
         then rev (dropWhile (\<lambda>c. c = 47) (rev head))
         else head)"

text \<open>
  The file system, as far as the engine uses it: the directories that exist and the
  files with their contents. Paths are compared as strings; the root and the current
  directory (the empty \<open>dirname\<close>) always exist.
\<close>

record filesystem =
  fs_dirs :: "ustr list"
  fs_files :: "(ustr \<times> ustr) list"

definition is_dir :: "filesystem \<Rightarrow> ustr \<Rightarrow> bool" where
  "is_dir fs path \<longleftrightarrow> path = [] \<or> path = u ''/'' \<or> path \<in> set (fs_dirs fs)"

definition is_file :: "filesystem \<Rightarrow> ustr \<Rightarrow> bool" where
  "is_file fs path \<longleftrightarrow> path \<in> set (map fst (fs_files fs))"

text \<open>The proper ancestors of a path: its prefixes that end before a separator.\<close>

definition ancestors :: "ustr \<Rightarrow> ustr list" where
  "ancestors path =
     filter (\<lambda>q. q \<noteq> [])
       (map (\<lambda>i. take i path) (filter (\<lambda>i. path ! i = 47) [0 ..< length path]))"

text \<open>
  \<open>os.makedirs(path, exist_ok=True)\<close>: creates the directory and its missing ancestors;
  raises when the path is empty or when it or an ancestor is a file.
\<close>

definition makedirs :: "filesystem \<Rightarrow> ustr \<Rightarrow> py_error + filesystem" where
  "makedirs fs path =
     (if path = [] then Inl FileNotFoundError
      else if is_file fs path then Inl FileExistsError
      else if list_ex (is_file fs) (ancestors path) then Inl NotADirectoryError
      else Inr (fs\<lparr>fs_dirs := fs_dirs fs @ filter (\<lambda>q. \<not> is_dir fs q) (ancestors path @ [path])\<rparr>))"

text \<open>
  Writing a file (\<open>Path.write_text\<close>, and the \<open>save\<close> of the speech library): raises
  when the path is a directory or its directory does not exist.
\<close>

definition write_file :: "filesystem \<Rightarrow> ustr \<Rightarrow> ustr \<Rightarrow> py_error + filesystem" where
  "write_file fs path content =
     (if is_dir fs path then Inl IsADirectoryError
      else if is_file fs (dirname path) then Inl NotADirectoryError
      else if \<not> is_dir fs (dirname path) then Inl FileNotFoundError
      else Inr (fs\<lparr>fs_files := (path, content) # filter (\<lambda>entry. fst entry \<noteq> path) (fs_files fs)\<rparr>))"

text \<open>\<open>str(e)\<close> for the errors of the file system, on the path they are about.\<close>

definition os_error_text :: "py_error \<Rightarrow> ustr \<Rightarrow> ustr" where
  "os_error_text e path =
     (case e of
        FileNotFoundError \<Rightarrow> u ''[Errno 2] No such file or directory: '' @ [39] @ path @ [39]
      | FileExistsError \<Rightarrow> u ''[Errno 17] File exists: '' @ [39] @ path @ [39]
      | NotADirectoryError \<Rightarrow> u ''[Errno 20] Not a directory: '' @ [39] @ path @ [39]
      | IsADirectoryError \<Rightarrow> u ''[Errno 21] Is a directory: '' @ [39] @ path @ [39]
      | _ \<Rightarrow> [])"

text \<open>
  The speech library is outside the program. \<open>tts_import\<close> says whether
  \<open>from gtts import gTTS\<close> succeeds; \<open>tts_speak text lang\<close> is what constructing the
  synthesiser and encoding the text gives: the audio bytes, or the message of the
  exception raised. A failing library call is taken to leave the file system as it was.
\<close>

record speech_library =
  tts_import :: bool
  tts_speak :: "ustr \<Rightarrow> ustr \<Rightarrow> ustr + ustr"

record 'e tts_world =
  files :: filesystem
  tts_entropy :: 'e

text \<open>\<open>uuid.uuid4().hex\<close>: the canonical string without its hyphens.\<close>

definition uuid_hex :: "ustr \<Rightarrow> ustr" where
  "uuid_hex uid = filter (\<lambda>c. c \<noteq> 45) uid"

text \<open>
  \<open>TTSEngine.synthesize\<close>. \<open>filename\<close> is \<open>None\<close> when the caller leaves it out; an
  empty name counts as left out. The directory is made before the \<open>try\<close> block, so its
  errors are not translated. Inside the block an \<open>ImportError\<close> leads to the placeholder
  file, whose own errors propagate, and any other exception becomes a \<open>RuntimeError\<close>
  that carries its message.
\<close>

definition synthesize ::
  "speech_library \<Rightarrow> ('e \<Rightarrow> ustr \<times> 'e) \<Rightarrow> ustr \<Rightarrow> ustr \<Rightarrow> ustr \<Rightarrow> ustr option
     \<Rightarrow> 'e tts_world \<Rightarrow> (py_error + ustr) \<times> 'e tts_world" where
  "synthesize lib uuid4 text language output_dir filename w =
     (let lang_code = (case map_of SUPPORTED_LANGS (lower language) of
                         None \<Rightarrow> u ''en'' | Some code \<Rightarrow> code);
          (stem, e1) = (case filename of
                          Some given \<Rightarrow>
                            if given \<noteq> [] then (given, tts_entropy w)
                            else (case uuid4 (tts_entropy w) of
                                    (uid, e) \<Rightarrow> (u ''tts_'' @ slice 0 12 (uuid_hex uid), e))
                        | None \<Rightarrow>
                            (case uuid4 (tts_entropy w) of
                               (uid, e) \<Rightarrow> (u ''tts_'' @ slice 0 12 (uuid_hex uid), e)));
          fname = stem @ u ''.mp3'';
          out_path = path_join output_dir fname;
          w1 = w\<lparr>tts_entropy := e1\<rparr>
      in case makedirs (files w1) output_dir of
           Inl e \<Rightarrow> (Inl e, w1)
         | Inr fs1 \<Rightarrow>
            (let w2 = w1\<lparr>files := fs1\<rparr> in
             if \<not> tts_import lib then
               (let txt_path = replace (u ''.mp3'') (u ''.txt'') out_path in
                case write_file fs1 txt_path
                       (u ''[TTS placeholder] lang='' @ lang_code @ [10] @ text) of
                  Inl e \<Rightarrow> (Inl e, w2)
                | Inr fs2 \<Rightarrow> (Inr txt_path, w2\<lparr>files := fs2\<rparr>))
             else
               (case tts_speak lib text lang_code of
                  Inl msg \<Rightarrow> (Inl (RuntimeError (u ''Text-to-speech synthesis failed: '' @ msg)), w2)
                | Inr audio \<Rightarrow>
                   (case write_file fs1 out_path audio of
                      Inl e \<Rightarrow>
                        (Inl (RuntimeError (u ''Text-to-speech synthesis failed: ''
                                @ os_error_text e out_path)), w2)
                    | Inr fs2 \<Rightarrow> (Inr out_path, w2\<lparr>files := fs2\<rparr>)))))"

section \<open>Notions used in the statements\<close>

text \<open>The result with its \<open>analysis_id\<close> blanked: everything but the UUID.\<close>

definition erase_analysis_id :: "design \<Rightarrow> design" where
  "erase_analysis_id res = res\<lparr>project_meta := (project_meta res)\<lparr>analysis_id := []\<rparr>\<rparr>"

text \<open>
  A small instance of the environment, on which the theorems below are exercised: a
  counter as generator state, from which every draw is computed, and a counter as
  entropy source.
\<close>

definition demo_random :: "nat random_module" where
  "demo_random =
     \<lparr>rng_seed = (\<lambda>n. nat \<bar>n\<bar>),
      rng_randint = (\<lambda>a b gs. (a + int (gs mod nat (b - a + 1)), Suc gs)),
      rng_sample = (\<lambda>n k gs. (take k (rotate gs [0 ..< n]), Suc gs)),
      rng_uniform = (\<lambda>a b gs. (if even gs then a else b, Suc gs))\<rparr>"

definition demo_uuid4 :: "nat \<Rightarrow> ustr \<times> nat" where
  "demo_uuid4 e = (u ''00000000-0000-4000-8000-000000000'' @ fmt_03d (e mod 1000), Suc e)"

definition demo_world :: "nat \<Rightarrow> (nat, nat, nat) world" where
  "demo_world e = \<lparr>rng_state = 0, entropy = e, clock = 0\<rparr>"

text \<open>
  The result with the three keys blanked that the real generator and the entry point
  write into \<open>project_meta\<close> after the mock generator has returned.
\<close>

definition erase_run_meta :: "design \<Rightarrow> design" where
  "erase_run_meta res =
     res\<lparr>project_meta := (project_meta res)\<lparr>model := [], image_caption := None, wall_clock_ms := None\<rparr>\<rparr>"

definition demo_platform :: "(nat, nat, nat) platform" where
  "demo_platform =
     \<lparr>plat_random = demo_random,
      plat_uuid4 = demo_uuid4,
      plat_perf_counter = (\<lambda>c. (Finite (of_nat c), Suc c)),
      plat_isfile = (\<lambda>path. path = u ''/tmp/room.jpg''),
      plat_config = None,
      plat_captioner = (\<lambda>path. CaptionImportError)\<rparr>"

text \<open>The result of a run, when there is one.\<close>

definition result_of :: "(py_error + design) \<times> 'w \<Rightarrow> design option" where
  "result_of out = (case fst out of Inl e \<Rightarrow> None | Inr res \<Rightarrow> Some res)"

text \<open>
  The advisory notes by name: the two notes of each area band, and the three notes that
  close every plan (clearance, light orientation, the first tip of the style).
\<close>

definition small_room_notes :: "ustr list" where
  "small_room_notes =
     [u ''Small room: prioritise wall-mounted storage to free floor space.'',
      u ''Use mirrors to create an illusion of depth and light.'']"

definition medium_room_notes :: "ustr list" where
  "medium_room_notes =
     [u ''Medium room: an L-shaped sofa arrangement works well here.'',
      u ''Consider a centrally anchored area rug to define zones.'']"

definition large_room_notes :: "ustr list" where
  "large_room_notes =
     [u ''Large room: divide into functional zones '' @ [8212] @ u '' seating, dining, and reading.'',
      u ''Use a statement chandelier to visually centre the space.'']"

definition closing_notes :: "ustr \<Rightarrow> ustr \<Rightarrow> ustr list" where
  "closing_notes sty tip =
     [u ''Ensure at least 90 cm clearance between all walkways for comfortable circulation.'',
      u ''Position seating to face the primary light source (window/natural light).'',
      u ''For '' @ sty @ u '' style: '' @ tip]"

text \<open>The greeting of the default language.\<close>

definition english_greeting :: ustr where
  "english_greeting =
     u ''Hello! I am Gruha Alankara'' @ [39] @ u ''s interior design assistant. How can I help you?''"

text \<open>A conversation chain for the reference environment: it always answers.\<close>

definition demo_langchain :: "nat langchain" where
  "demo_langchain =
     \<lparr>lc_build = Inr 0,
      lc_predict = (\<lambda>c q. (Inr (u ''For your room, I suggest a warm colour palette.''), Suc c))\<rparr>"

text \<open>
  A machine without the speech library, and a file system on which only \<open>/tmp\<close> exists.
\<close>

definition no_speech_library :: speech_library where
  "no_speech_library = \<lparr>tts_import = False, tts_speak = (\<lambda>text lang. Inl [])\<rparr>"

definition tmp_only :: "nat tts_world" where
  "tmp_only = \<lparr>files = \<lparr>fs_dirs = [u ''/tmp''], fs_files = []\<rparr>, tts_entropy = 1\<rparr>"

section \<open>Results\<close>

lemmas str_defs =
  u_def lstrip_chars_def slice_def strip_def lstrip_ws_def rstrip_ws_def is_space_def

lemmas int16_defs =
  int16_def int_strip_def is_int_space_def strip_hex_prefix_def hex_digit_val_def

subsection \<open>Colour conversion\<close>

lemma int16_two_hex:
  assumes "hex_digit_val a = Some x" and "hex_digit_val b = Some y"
  shows "int16 [a, b] = Inr (int (16 * x + y))"
proof -
  have a: "\<not> is_int_space a" "a \<noteq> 45" "a \<noteq> 43" "48 \<le> a"
    using assms(1) by (auto simp: hex_digit_val_def is_int_space_def is_space_def split: if_splits)
  have b: "\<not> is_int_space b" "b \<noteq> 120" "b \<noteq> 88" "b \<noteq> 95"
    using assms(2) by (auto simp: hex_digit_val_def is_int_space_def is_space_def split: if_splits)
  have s: "int_strip [a, b] = [a, b]"
    using a b by (simp add: int_strip_def)
  show ?thesis
    unfolding int16_def s Let_def
    using a b assms by (simp add: strip_hex_prefix_def)
qed

lemma hex_to_rgb_well_formed:
  assumes "hex_digit_val c1 = Some d1" "hex_digit_val c2 = Some d2" "hex_digit_val c3 = Some d3"
    "hex_digit_val c4 = Some d4" "hex_digit_val c5 = Some d5" "hex_digit_val c6 = Some d6"
  shows "hex_to_rgb (u ''#'' @ [c1, c2, c3, c4, c5, c6])
       = Inr \<lparr>rgb_r = int (16 * d1 + d2), rgb_g = int (16 * d3 + d4), rgb_b = int (16 * d5 + d6)\<rparr>"
proof -
  have "c1 \<noteq> 35" using assms(1) by (auto simp: hex_digit_val_def split: if_splits)
  then have l: "lstrip_chars (u ''#'') (u ''#'' @ [c1, c2, c3, c4, c5, c6]) = [c1, c2, c3, c4, c5, c6]"
    by (simp add: lstrip_chars_def u_def)
  show ?thesis
    unfolding hex_to_rgb_def l Let_def
    by (simp add: slice_def int16_two_hex assms)
qed

lemma hex_to_rgb_wrong_length:
  "length (lstrip_chars (u ''#'') s) \<noteq> 6 \<Longrightarrow> hex_to_rgb s = Inr \<lparr>rgb_r = 0, rgb_g = 0, rgb_b = 0\<rparr>"
  by (simp add: hex_to_rgb_def)

text \<open>
  Claim C7. The claim: for every input string the hex-to-RGB conversion never raises, and
  every malformed value (not exactly six hex digits after the leading marker) yields
  black. A marker followed by six hex digits is decoded (\<open>hex_to_rgb_well_formed\<close>) and a
  value of another length yields black (\<open>hex_to_rgb_wrong_length\<close>), but the code guards
  only the length: the string \<open>#GGGGGG\<close> keeps six characters after the marker is
  stripped, passes the length test, and \<open>int("GG", 16)\<close> raises \<open>ValueError\<close>.
\<close>

theorem hex_to_rgb_non_hex_raises:
  "hex_to_rgb (u ''#GGGGGG'') = Inl ValueError"
  by (simp add: hex_to_rgb_def str_defs int16_defs)

subsection \<open>Facts about the knowledge base\<close>

lemma map_of_default: "map_of STYLE_KNOWLEDGE DEFAULT_STYLE = Some (snd (hd STYLE_KNOWLEDGE))"
  by (simp add: STYLE_KNOWLEDGE_def DEFAULT_STYLE_def u_def)

lemma get_style_data_ok: "\<exists>sd. get_style_data sty = Inr sd \<and> sd \<in> snd ` set STYLE_KNOWLEDGE"
proof (cases "map_of STYLE_KNOWLEDGE sty")
  case None
  then show ?thesis
    by (simp add: get_style_data_def subscript_def map_of_default) (simp add: STYLE_KNOWLEDGE_def)
next
  case (Some d)
  then have "(sty, d) \<in> set STYLE_KNOWLEDGE" by (rule map_of_SomeD)
  then have "d \<in> snd ` set STYLE_KNOWLEDGE" by force
  with Some show ?thesis
    by (simp add: get_style_data_def subscript_def map_of_default)
qed

lemma kb_hex_ok:
  "sd \<in> snd ` set STYLE_KNOWLEDGE \<Longrightarrow> c \<in> set (kb_color_scheme sd) \<Longrightarrow> \<exists>v. hex_to_rgb (hex c) = Inr v"
  unfolding STYLE_KNOWLEDGE_def
  by (auto simp add: hex_to_rgb_def str_defs int16_defs)

lemma kb_tips_ok:
  "sd \<in> snd ` set STYLE_KNOWLEDGE \<Longrightarrow> \<exists>tip. first_item (kb_tips sd) = Inr tip"
  unfolding STYLE_KNOWLEDGE_def
  by (auto simp add: first_item_def)

subsection \<open>The mock generator, step by step\<close>

lemma color_entries_ok:
  "(\<And>c. c \<in> set cs \<Longrightarrow> \<exists>v. hex_to_rgb (hex c) = Inr v) \<Longrightarrow>
   \<exists>colors gs'. color_entries lib cs gs = (Inr colors, gs')"
proof (induction cs arbitrary: gs)
  case Nil
  show ?case by simp
next
  case (Cons c cs)
  obtain v where v: "hex_to_rgb (hex c) = Inr v" using Cons.prems by auto
  obtain x gs1 where d: "rng_uniform lib (Finite 15) (Finite 45) gs = (x, gs1)" by (cases "rng_uniform lib (Finite 15) (Finite 45) gs")
  obtain rest gs2 where r: "color_entries lib cs gs1 = (Inr rest, gs2)"
    using Cons.IH [of gs1] Cons.prems by auto
  show ?case by (simp add: v d r)
qed

lemma random_sample_ok:
  "0 \<le> k \<Longrightarrow> k \<le> int (length xs) \<Longrightarrow> \<exists>picks gs'. random_sample lib xs k gs = Inr (picks, gs')"
  by (simp add: random_sample_def split: prod.splits)

text \<open>The result of the mock generator, given what each step returned.\<close>

lemma mock_generate_unfold:
  assumes "get_style_data sty = Inr sd"
    and "rng_randint lib 3 4 (rng_seed lib (int (length p) + int (length sty))) = (k, g1)"
    and "random_sample lib (kb_furniture sd) (min (int (length (kb_furniture sd))) k) g1 = Inr (picks, g2)"
    and "first_item (kb_tips sd) = Inr tip"
    and "new_uuid (entropy w) = (uid, e1)"
    and "rng_uniform lib (to_double (39 / 50)) (to_double (24 / 25)) g2 = (conf, g3)"
    and "rng_randint lib 800 2400 g3 = (ptime, g4)"
    and "color_entries lib (kb_color_scheme sd) g4 = (Inr colors, g5)"
    and "rng_uniform lib (to_double (11 / 2)) (to_double (19 / 2)) g5 = (light, g6)"
    and "rng_randint lib 15000 45000 g6 = (labour, g7)"
    and "rng_randint lib 5000 15000 g7 = (misc, g8)"
  shows "mock_generate lib new_uuid p sty rt dims w =
    (Inr \<lparr>project_meta =
            \<lparr>style = sty, room_type = rt, room_area_sqft = room_area_of dims,
             analysis_id = uid, confidence = round_nd conf 3,
             processing_time_ms = ptime, model = u ''GruhaAI-Mock-v1.0'',
             image_caption = None, wall_clock_ms = None\<rparr>,
          furniture = map (furniture_entry sty) (enumerate_from 1 picks),
          color_scheme = colors,
          placement_plan =
            \<lparr>strategy =
               (if float_lt (Finite 150) (area_or_zero (room_area_of dims))
                then u ''zone-based'' else u ''single-zone''),
             plan_notes = (case room_area_of dims of None \<Rightarrow> [] | Some a \<Rightarrow> area_notes a)
                            @ fixed_notes sty tip,
             traffic_flow =
               (if sty = u ''Modern'' \<or> sty = u ''Minimalist''
                then u ''U-shape'' else u ''open-plan''),
             natural_light_score = round_nd light 1\<rparr>,
          design_tips = kb_tips sd,
          estimated_budget_inr =
            [(u ''furniture_total'', sum_list (map price_inr picks)),
             (u ''labour_estimate'', labour),
             (u ''miscellaneous'', misc),
             (u ''grand_total'', sum_list (map price_inr picks) + labour + misc)]\<rparr>,
     w\<lparr>rng_state := g8, entropy := e1\<rparr>)"
  unfolding mock_generate_def Let_def
  by (simp add: assms)

lemma randint_3_4:
  assumes "random_contract lib" "rng_randint lib 3 4 gs = (k, g1)"
  shows "3 \<le> k \<and> k \<le> 4"
proof -
  have "(3::int) \<le> 4" by simp
  then have "3 \<le> fst (rng_randint lib 3 4 gs) \<and> fst (rng_randint lib 3 4 gs) \<le> 4"
    using assms(1) unfolding random_contract_def by blast
  then show ?thesis using assms(2) by simp
qed

lemma mock_generate_succeeds:
  assumes "random_contract lib"
  shows "\<exists>r w'. mock_generate lib new_uuid p sty rt dims w = (Inr r, w')"
proof -
  obtain sd where sd: "get_style_data sty = Inr sd" "sd \<in> snd ` set STYLE_KNOWLEDGE"
    using get_style_data_ok by blast
  obtain k g1 where k: "rng_randint lib 3 4 (rng_seed lib (int (length p) + int (length sty))) = (k, g1)"
    by (cases "rng_randint lib 3 4 (rng_seed lib (int (length p) + int (length sty)))")
  have k3: "3 \<le> k" using randint_3_4 [OF assms k] by simp
  define n where "n = min (int (length (kb_furniture sd))) k"
  have n: "0 \<le> n" "n \<le> int (length (kb_furniture sd))" using k3 by (auto simp: n_def)
  obtain picks g2 where s: "random_sample lib (kb_furniture sd) n g1 = Inr (picks, g2)"
    using random_sample_ok [OF n, of lib g1] by auto
  obtain tip where t: "first_item (kb_tips sd) = Inr tip" using kb_tips_ok [OF sd(2)] by blast
  obtain uid e1 where uu: "new_uuid (entropy w) = (uid, e1)" by (cases "new_uuid (entropy w)")
  obtain conf g3 where c1: "rng_uniform lib (to_double (39 / 50)) (to_double (24 / 25)) g2 = (conf, g3)"
    by (cases "rng_uniform lib (to_double (39 / 50)) (to_double (24 / 25)) g2")
  obtain ptime g4 where c2: "rng_randint lib 800 2400 g3 = (ptime, g4)"
    by (cases "rng_randint lib 800 2400 g3")
  obtain colors g5 where c3: "color_entries lib (kb_color_scheme sd) g4 = (Inr colors, g5)"
  proof -
    have "\<And>c. c \<in> set (kb_color_scheme sd) \<Longrightarrow> \<exists>v. hex_to_rgb (hex c) = Inr v"
      by (rule kb_hex_ok [OF sd(2)])
    from color_entries_ok [where cs = "kb_color_scheme sd" and lib = lib and gs = g4, OF this] that
    show thesis by blast
  qed
  obtain light g6 where c4: "rng_uniform lib (to_double (11 / 2)) (to_double (19 / 2)) g5 = (light, g6)"
    by (cases "rng_uniform lib (to_double (11 / 2)) (to_double (19 / 2)) g5")
  obtain labour g7 where c5: "rng_randint lib 15000 45000 g6 = (labour, g7)"
    by (cases "rng_randint lib 15000 45000 g6")
  obtain misc g8 where c6: "rng_randint lib 5000 15000 g7 = (misc, g8)"
    by (cases "rng_randint lib 5000 15000 g7")
  show ?thesis
    by (intro exI) (rule mock_generate_unfold [where new_uuid = new_uuid and w = w, OF sd(1) k s [unfolded n_def] t uu c1 c2 c3 c4 c5 c6])
qed

lemma mock_generate_sample_fails:
  assumes "get_style_data sty = Inr sd"
    and "rng_randint lib 3 4 (rng_seed lib (int (length p) + int (length sty))) = (k, g1)"
    and "random_sample lib (kb_furniture sd) (min (int (length (kb_furniture sd))) k) g1 = Inl e"
  shows "mock_generate lib new_uuid p sty rt dims w = (Inl e, w\<lparr>rng_state := g1\<rparr>)"
  unfolding mock_generate_def Let_def
  by (simp add: assms)

text \<open>
  Every run with the same library, style and seed \<open>n\<close> has the same shape: either the
  sample fails with \<open>ValueError\<close>, or the result is the literal below, in which only the room type, the
  dimensions and the UUID come from the call.
\<close>

lemma mock_generate_form:
  obtains (fail) g1 where
    "\<And>p rt dims w. int (length p) + int (length sty) = n \<Longrightarrow>
       mock_generate lib new_uuid p sty rt dims (w :: ('g, 'e, 'c) world) =
         (Inl ValueError, w\<lparr>rng_state := g1\<rparr>)"
  | (ok) sd picks tip conf ptime colors light labour misc g8 where
    "get_style_data sty = Inr sd" "first_item (kb_tips sd) = Inr tip"
    "\<And>p rt dims w. int (length p) + int (length sty) = n \<Longrightarrow>
       mock_generate lib new_uuid p sty rt dims (w :: ('g, 'e, 'c) world) =
    (Inr \<lparr>project_meta =
            \<lparr>style = sty, room_type = rt, room_area_sqft = room_area_of dims,
             analysis_id = fst (new_uuid (entropy w)), confidence = round_nd conf 3,
             processing_time_ms = ptime, model = u ''GruhaAI-Mock-v1.0'',
             image_caption = None, wall_clock_ms = None\<rparr>,
          furniture = map (furniture_entry sty) (enumerate_from 1 picks),
          color_scheme = colors,
          placement_plan =
            \<lparr>strategy =
               (if float_lt (Finite 150) (area_or_zero (room_area_of dims))
                then u ''zone-based'' else u ''single-zone''),
             plan_notes = (case room_area_of dims of None \<Rightarrow> [] | Some a \<Rightarrow> area_notes a)
                            @ fixed_notes sty tip,
             traffic_flow =
               (if sty = u ''Modern'' \<or> sty = u ''Minimalist''
                then u ''U-shape'' else u ''open-plan''),
             natural_light_score = round_nd light 1\<rparr>,
          design_tips = kb_tips sd,
          estimated_budget_inr =
            [(u ''furniture_total'', sum_list (map price_inr picks)),
             (u ''labour_estimate'', labour),
             (u ''miscellaneous'', misc),
             (u ''grand_total'', sum_list (map price_inr picks) + labour + misc)]\<rparr>,
     w\<lparr>rng_state := g8, entropy := snd (new_uuid (entropy w))\<rparr>)"
proof -
  obtain sd where sd: "get_style_data sty = Inr sd" "sd \<in> snd ` set STYLE_KNOWLEDGE"
    using get_style_data_ok by blast
  obtain k g1 where k: "rng_randint lib 3 4 (rng_seed lib n) = (k, g1)"
    by (cases "rng_randint lib 3 4 (rng_seed lib n)")
  show thesis
  proof (cases "random_sample lib (kb_furniture sd) (min (int (length (kb_furniture sd))) k) g1")
    case (Inl e)
    then have e: "e = ValueError"
      by (simp add: random_sample_def split: if_splits prod.splits)
    show thesis
    proof (rule fail)
      fix p :: ustr and rt dims and w :: "('g, 'e, 'c) world"
      assume "int (length p) + int (length sty) = n"
      with k have k': "rng_randint lib 3 4 (rng_seed lib (int (length p) + int (length sty))) = (k, g1)"
        by simp
      show "mock_generate lib new_uuid p sty rt dims w = (Inl ValueError, w\<lparr>rng_state := g1\<rparr>)"
        by (rule mock_generate_sample_fails [OF sd(1) k' Inl [unfolded e]])
    qed
  next
    case (Inr pg)
    obtain picks g2 where pg: "pg = (picks, g2)" by (cases pg)
    note s = Inr [unfolded pg]
    obtain tip where t: "first_item (kb_tips sd) = Inr tip" using kb_tips_ok [OF sd(2)] by blast
    obtain conf g3 where c1: "rng_uniform lib (to_double (39 / 50)) (to_double (24 / 25)) g2 = (conf, g3)"
      by (cases "rng_uniform lib (to_double (39 / 50)) (to_double (24 / 25)) g2")
    obtain ptime g4 where c2: "rng_randint lib 800 2400 g3 = (ptime, g4)"
      by (cases "rng_randint lib 800 2400 g3")
    obtain colors g5 where c3: "color_entries lib (kb_color_scheme sd) g4 = (Inr colors, g5)"
    proof -
      have "\<And>c. c \<in> set (kb_color_scheme sd) \<Longrightarrow> \<exists>v. hex_to_rgb (hex c) = Inr v"
        by (rule kb_hex_ok [OF sd(2)])
      from color_entries_ok [where cs = "kb_color_scheme sd" and lib = lib and gs = g4, OF this] that
      show thesis by blast
    qed
    obtain light g6 where c4: "rng_uniform lib (to_double (11 / 2)) (to_double (19 / 2)) g5 = (light, g6)"
      by (cases "rng_uniform lib (to_double (11 / 2)) (to_double (19 / 2)) g5")
    obtain labour g7 where c5: "rng_randint lib 15000 45000 g6 = (labour, g7)"
      by (cases "rng_randint lib 15000 45000 g6")
    obtain misc g8 where c6: "rng_randint lib 5000 15000 g7 = (misc, g8)"
      by (cases "rng_randint lib 5000 15000 g7")
    show thesis
    proof (rule ok [OF sd(1) t])
      fix p :: ustr and rt dims and w :: "('g, 'e, 'c) world"
      assume "int (length p) + int (length sty) = n"
      with k have k': "rng_randint lib 3 4 (rng_seed lib (int (length p) + int (length sty))) = (k, g1)"
        by simp
      have uu: "new_uuid (entropy w) = (fst (new_uuid (entropy w)), snd (new_uuid (entropy w)))"
        by simp
      show "mock_generate lib new_uuid p sty rt dims w =
    (Inr \<lparr>project_meta =
            \<lparr>style = sty, room_type = rt, room_area_sqft = room_area_of dims,
             analysis_id = fst (new_uuid (entropy w)), confidence = round_nd conf 3,
             processing_time_ms = ptime, model = u ''GruhaAI-Mock-v1.0'',
             image_caption = None, wall_clock_ms = None\<rparr>,
          furniture = map (furniture_entry sty) (enumerate_from 1 picks),
          color_scheme = colors,
          placement_plan =
            \<lparr>strategy =
               (if float_lt (Finite 150) (area_or_zero (room_area_of dims))
                then u ''zone-based'' else u ''single-zone''),
             plan_notes = (case room_area_of dims of None \<Rightarrow> [] | Some a \<Rightarrow> area_notes a)
                            @ fixed_notes sty tip,
             traffic_flow =
               (if sty = u ''Modern'' \<or> sty = u ''Minimalist''
                then u ''U-shape'' else u ''open-plan''),
             natural_light_score = round_nd light 1\<rparr>,
          design_tips = kb_tips sd,
          estimated_budget_inr =
            [(u ''furniture_total'', sum_list (map price_inr picks)),
             (u ''labour_estimate'', labour),
             (u ''miscellaneous'', misc),
             (u ''grand_total'', sum_list (map price_inr picks) + labour + misc)]\<rparr>,
     w\<lparr>rng_state := g8, entropy := snd (new_uuid (entropy w))\<rparr>)"
        by (rule mock_generate_unfold [where new_uuid = new_uuid and w = w, OF sd(1) k' s t uu c1 c2 c3 c4 c5 c6])
    qed
  qed
qed

subsection \<open>The reference environment meets the library contract\<close>

lemma demo_random_contract: "random_contract demo_random"
  unfolding random_contract_def demo_random_def
proof (intro conjI allI impI)
  fix a b :: int and gs :: nat
  assume ab: "a \<le> b"
  have "int (gs mod nat (b - a + 1)) < b - a + 1"
    using ab by (metis add.commute diff_ge_0_iff_ge int_nat_eq mod_less_divisor of_nat_less_iff zero_less_nat_eq zless_add1_eq add_nonneg_pos zero_less_one nat_0_le order_less_le)
  then show "fst (rng_randint \<lparr>rng_seed = (\<lambda>n. nat \<bar>n\<bar>),
      rng_randint = (\<lambda>a b gs. (a + int (gs mod nat (b - a + 1)), Suc gs)),
      rng_sample = (\<lambda>n k gs. (take k (rotate gs [0 ..< n]), Suc gs)),
      rng_uniform = (\<lambda>a b gs. (if even gs then a else b, Suc gs))\<rparr> a b gs) \<le> b" by simp
qed (auto dest: in_set_takeD)

subsection \<open>Two runs of the mock generator\<close>

lemma price_of_entries:
  "map price_inr (map (furniture_entry sty) (enumerate_from n xs)) = map price_inr xs"
proof -
  have "map price_inr (map (furniture_entry sty) (enumerate_from n xs))
      = map price_inr (map snd (enumerate_from n xs))"
    by (simp add: furniture_entry_def split: prod.splits)
  also have "map snd (enumerate_from n xs) = xs"
    by (simp add: enumerate_from_def)
  finally show ?thesis .
qed

lemma runs_agree_erased:
  fixes w1 w2 :: "('g, 'e, 'c) world"
  assumes "length p1 = length p2"
  shows "map_sum id erase_analysis_id (fst (mock_generate lib nu p1 sty rt dims w1))
       = map_sum id erase_analysis_id (fst (mock_generate lib nu p2 sty rt dims w2))"
proof (cases rule: mock_generate_form
    [where sty = sty and n = "int (length p1) + int (length sty)" and lib = lib and new_uuid = nu and 'c = 'c])
  case (fail g1)
  from fail [of p1 rt dims w1] fail [of p2 rt dims w2] assms show ?thesis by simp
next
  case (ok sd picks tip conf ptime colors light labour misc g8)
  from ok(3) [of p1 rt dims w1] ok(3) [of p2 rt dims w2] assms show ?thesis
    by (simp add: erase_analysis_id_def)
qed

lemma runs_agree_view:
  fixes w1 w2 :: "('g, 'e, 'c) world"
  shows "map_sum id (\<lambda>r. (furniture r, confidence (project_meta r), processing_time_ms (project_meta r)))
       (fst (mock_generate lib nu p sty rt1 d1 w1))
     = map_sum id (\<lambda>r. (furniture r, confidence (project_meta r), processing_time_ms (project_meta r)))
       (fst (mock_generate lib nu p sty rt2 d2 w2))"
proof (cases rule: mock_generate_form
    [where sty = sty and n = "int (length p) + int (length sty)" and lib = lib and new_uuid = nu and 'c = 'c])
  case (fail g1)
  from fail [of p rt1 d1 w1] fail [of p rt2 d2 w2] show ?thesis by simp
next
  case (ok sd picks tip conf ptime colors light labour misc g8)
  from ok(3) [of p rt1 d1 w1] ok(3) [of p rt2 d2 w2] show ?thesis
    by simp
qed


text \<open>
  Claim C1. Two mock generations with the same image path and style select the same
  furniture (same items, same order, same count) and report the same confidence and the
  same processing time, whatever the room type, the dimensions, the state in which the
  generator was left by earlier calls and the entropy source are: the generator is
  seeded from the two strings before the first draw. The first part compares the
  outcomes as they are (an error, which only a failing sample can cause, is the same in
  both runs); the second says that with a library that keeps its contract both runs
  return a result.
\<close>

theorem mock_generate_deterministic:
  fixes w1 w2 :: "('g, 'e, 'c) world"
  shows "map_sum id (\<lambda>r. (furniture r, confidence (project_meta r), processing_time_ms (project_meta r)))
           (fst (mock_generate lib nu p sty rt1 d1 w1))
         = map_sum id (\<lambda>r. (furniture r, confidence (project_meta r), processing_time_ms (project_meta r)))
           (fst (mock_generate lib nu p sty rt2 d2 w2))
       \<and> (random_contract lib \<longrightarrow>
            (\<exists>r1 r2. fst (mock_generate lib nu p sty rt1 d1 w1) = Inr r1
               \<and> fst (mock_generate lib nu p sty rt2 d2 w2) = Inr r2
               \<and> furniture r1 = furniture r2
               \<and> length (furniture r1) = length (furniture r2)
               \<and> confidence (project_meta r1) = confidence (project_meta r2)
               \<and> processing_time_ms (project_meta r1) = processing_time_ms (project_meta r2)))"
proof (intro conjI impI)
  show v: "map_sum id (\<lambda>r. (furniture r, confidence (project_meta r), processing_time_ms (project_meta r)))
           (fst (mock_generate lib nu p sty rt1 d1 w1))
         = map_sum id (\<lambda>r. (furniture r, confidence (project_meta r), processing_time_ms (project_meta r)))
           (fst (mock_generate lib nu p sty rt2 d2 w2))"
    by (rule runs_agree_view)
  assume c: "random_contract lib"
  obtain r1 w1' where r1: "mock_generate lib nu p sty rt1 d1 w1 = (Inr r1, w1')"
    using mock_generate_succeeds [OF c, where new_uuid = nu and w = w1] by blast
  obtain r2 w2' where r2: "mock_generate lib nu p sty rt2 d2 w2 = (Inr r2, w2')"
    using mock_generate_succeeds [OF c, where new_uuid = nu and w = w2] by blast
  from v r1 r2 show "\<exists>r1 r2. fst (mock_generate lib nu p sty rt1 d1 w1) = Inr r1
               \<and> fst (mock_generate lib nu p sty rt2 d2 w2) = Inr r2
               \<and> furniture r1 = furniture r2
               \<and> length (furniture r1) = length (furniture r2)
               \<and> confidence (project_meta r1) = confidence (project_meta r2)
               \<and> processing_time_ms (project_meta r1) = processing_time_ms (project_meta r2)"
    by simp
qed

theorem mock_generate_deterministic_witness:
  "random_contract demo_random \<and>
   (\<exists>r1 r2.
      fst (mock_generate demo_random demo_uuid4 (u ''/tmp/room.jpg'') (u ''Modern'')
             (u ''Living Room'') None (demo_world 1)) = Inr r1
    \<and> fst (mock_generate demo_random demo_uuid4 (u ''/tmp/room.jpg'') (u ''Modern'')
             (u ''Bedroom'') (Some \<lparr>dim_length = Some (Finite 15), dim_width = Some (Finite 12)\<rparr>) (demo_world 2)) = Inr r2
    \<and> furniture r1 = furniture r2
    \<and> confidence (project_meta r1) = confidence (project_meta r2)
    \<and> processing_time_ms (project_meta r1) = processing_time_ms (project_meta r2))"
  using mock_generate_deterministic [of demo_random demo_uuid4 "u ''/tmp/room.jpg''" "u ''Modern''"
      "u ''Living Room''" None "demo_world 1" "u ''Bedroom''"
      "Some \<lparr>dim_length = Some (Finite 15), dim_width = Some (Finite 12)\<rparr>" "demo_world 2"]
    demo_random_contract
  by blast

text \<open>
  Claim C9. The seed is the sum of the two lengths: two runs with the same style, room
  type and dimensions whose image paths have the same length agree on the whole result
  except \<open>analysis_id\<close>, so on the furniture and on every seeded field (confidence,
  processing time, coverages, light score, budget), also for distinct paths, and
  whatever the earlier generator state and the entropy source are.
\<close>

theorem equal_length_paths_collide:
  fixes w1 w2 :: "('g, 'e, 'c) world"
  shows "length p1 = length p2 \<longrightarrow>
       map_sum id erase_analysis_id (fst (mock_generate lib nu p1 sty rt dims w1))
         = map_sum id erase_analysis_id (fst (mock_generate lib nu p2 sty rt dims w2))
       \<and> (random_contract lib \<longrightarrow>
            (\<exists>r1 r2. fst (mock_generate lib nu p1 sty rt dims w1) = Inr r1
               \<and> fst (mock_generate lib nu p2 sty rt dims w2) = Inr r2
               \<and> furniture r1 = furniture r2
               \<and> confidence (project_meta r1) = confidence (project_meta r2)
               \<and> processing_time_ms (project_meta r1) = processing_time_ms (project_meta r2)
               \<and> map coverage_percent (color_scheme r1) = map coverage_percent (color_scheme r2)
               \<and> natural_light_score (placement_plan r1) = natural_light_score (placement_plan r2)
               \<and> estimated_budget_inr r1 = estimated_budget_inr r2))"
proof (intro impI conjI)
  assume len: "length p1 = length p2"
  show v: "map_sum id erase_analysis_id (fst (mock_generate lib nu p1 sty rt dims w1))
         = map_sum id erase_analysis_id (fst (mock_generate lib nu p2 sty rt dims w2))"
    by (rule runs_agree_erased [OF len])
  assume c: "random_contract lib"
  obtain r1 w1' where r1: "mock_generate lib nu p1 sty rt dims w1 = (Inr r1, w1')"
    using mock_generate_succeeds [OF c, where new_uuid = nu and w = w1] by blast
  obtain r2 w2' where r2: "mock_generate lib nu p2 sty rt dims w2 = (Inr r2, w2')"
    using mock_generate_succeeds [OF c, where new_uuid = nu and w = w2] by blast
  from v r1 r2 have e: "erase_analysis_id r1 = erase_analysis_id r2" by simp
  have "furniture r1 = furniture (erase_analysis_id r1)"
    "confidence (project_meta r1) = confidence (project_meta (erase_analysis_id r1))"
    "processing_time_ms (project_meta r1) = processing_time_ms (project_meta (erase_analysis_id r1))"
    "color_scheme r1 = color_scheme (erase_analysis_id r1)"
    "placement_plan r1 = placement_plan (erase_analysis_id r1)"
    "estimated_budget_inr r1 = estimated_budget_inr (erase_analysis_id r1)"
    by (simp_all add: erase_analysis_id_def)
  moreover have "furniture r2 = furniture (erase_analysis_id r2)"
    "confidence (project_meta r2) = confidence (project_meta (erase_analysis_id r2))"
    "processing_time_ms (project_meta r2) = processing_time_ms (project_meta (erase_analysis_id r2))"
    "color_scheme r2 = color_scheme (erase_analysis_id r2)"
    "placement_plan r2 = placement_plan (erase_analysis_id r2)"
    "estimated_budget_inr r2 = estimated_budget_inr (erase_analysis_id r2)"
    by (simp_all add: erase_analysis_id_def)
  ultimately show "\<exists>r1 r2. fst (mock_generate lib nu p1 sty rt dims w1) = Inr r1
               \<and> fst (mock_generate lib nu p2 sty rt dims w2) = Inr r2
               \<and> furniture r1 = furniture r2
               \<and> confidence (project_meta r1) = confidence (project_meta r2)
               \<and> processing_time_ms (project_meta r1) = processing_time_ms (project_meta r2)
               \<and> map coverage_percent (color_scheme r1) = map coverage_percent (color_scheme r2)
               \<and> natural_light_score (placement_plan r1) = natural_light_score (placement_plan r2)
               \<and> estimated_budget_inr r1 = estimated_budget_inr r2"
    using r1 r2 e by simp
qed

theorem equal_length_paths_collide_witness:
  "u ''/tmp/a.jpg'' \<noteq> u ''/srv/b.png'' \<and> length (u ''/tmp/a.jpg'') = length (u ''/srv/b.png'')
   \<and> random_contract demo_random
   \<and> (\<exists>r1 r2.
        fst (mock_generate demo_random demo_uuid4 (u ''/tmp/a.jpg'') (u ''Haveli'')
               (u ''Bedroom'') None (demo_world 1)) = Inr r1
      \<and> fst (mock_generate demo_random demo_uuid4 (u ''/srv/b.png'') (u ''Haveli'')
               (u ''Bedroom'') None (demo_world 2)) = Inr r2
      \<and> furniture r1 = furniture r2
      \<and> confidence (project_meta r1) = confidence (project_meta r2)
      \<and> estimated_budget_inr r1 = estimated_budget_inr r2)"
proof -
  have ne: "u ''/tmp/a.jpg'' \<noteq> u ''/srv/b.png''" by (simp add: u_def)
  have len: "length (u ''/tmp/a.jpg'') = length (u ''/srv/b.png'')" by (simp add: u_def)
  from equal_length_paths_collide [of "u ''/tmp/a.jpg''" "u ''/srv/b.png''" demo_random demo_uuid4
      "u ''Haveli''" "u ''Bedroom''" None "demo_world 1" "demo_world 2"] len demo_random_contract ne
  show ?thesis by blast
qed

text \<open>
  Claim C10. Two runs of the mock generator with the same four arguments agree on every
  field except \<open>analysis_id\<close>. That field is the string the UUID source returns in the
  run: it is read from the entropy source, which no argument and no seed determines, so
  the two results are equal exactly when the two draws are; the whole result is not a
  function of the arguments, its seeded part is.
\<close>

theorem analysis_id_not_reproducible:
  fixes w1 w2 :: "('g, 'e, 'c) world"
  shows "map_sum id erase_analysis_id (fst (mock_generate lib nu p sty rt dims w1))
         = map_sum id erase_analysis_id (fst (mock_generate lib nu p sty rt dims w2))
       \<and> (fst (mock_generate lib nu p sty rt dims w1) = Inr r1
            \<and> fst (mock_generate lib nu p sty rt dims w2) = Inr r2 \<longrightarrow>
              analysis_id (project_meta r1) = fst (nu (entropy w1))
            \<and> analysis_id (project_meta r2) = fst (nu (entropy w2))
            \<and> (r1 = r2 \<longleftrightarrow> fst (nu (entropy w1)) = fst (nu (entropy w2))))"
proof (cases rule: mock_generate_form
    [where sty = sty and n = "int (length p) + int (length sty)" and lib = lib and new_uuid = nu
       and 'c = 'c])
  case (fail g1)
  from fail [of p rt dims w1] fail [of p rt dims w2] show ?thesis by simp
next
  case (ok sd picks tip conf ptime colors light labour misc g8)
  from ok(3) [of p rt dims w1] ok(3) [of p rt dims w2] show ?thesis
    by (auto simp add: erase_analysis_id_def)
qed

theorem analysis_id_not_reproducible_witness:
  "\<exists>r1 r2.
      fst (mock_generate demo_random demo_uuid4 (u ''/tmp/room.jpg'') (u ''Modern'')
             (u ''Living Room'') None (demo_world 1)) = Inr r1
    \<and> fst (mock_generate demo_random demo_uuid4 (u ''/tmp/room.jpg'') (u ''Modern'')
             (u ''Living Room'') None (demo_world 2)) = Inr r2
    \<and> analysis_id (project_meta r1) = u ''00000000-0000-4000-8000-000000000001''
    \<and> analysis_id (project_meta r2) = u ''00000000-0000-4000-8000-000000000002''
    \<and> r1 \<noteq> r2 \<and> erase_analysis_id r1 = erase_analysis_id r2"
proof -
  let ?run1 = "mock_generate demo_random demo_uuid4 (u ''/tmp/room.jpg'') (u ''Modern'')
             (u ''Living Room'') None (demo_world 1)"
  let ?run2 = "mock_generate demo_random demo_uuid4 (u ''/tmp/room.jpg'') (u ''Modern'')
             (u ''Living Room'') None (demo_world 2)"
  obtain r1 w1' where r1: "?run1 = (Inr r1, w1')"
    using mock_generate_succeeds [OF demo_random_contract, where new_uuid = demo_uuid4 and w = "demo_world 1"]
    by blast
  obtain r2 w2' where r2: "?run2 = (Inr r2, w2')"
    using mock_generate_succeeds [OF demo_random_contract, where new_uuid = demo_uuid4 and w = "demo_world 2"]
    by blast
  have ids: "fst (demo_uuid4 (entropy (demo_world 1))) = u ''00000000-0000-4000-8000-000000000001''"
    "fst (demo_uuid4 (entropy (demo_world 2))) = u ''00000000-0000-4000-8000-000000000002''"
    by code_simp+
  have ne: "u ''00000000-0000-4000-8000-000000000001'' \<noteq> u ''00000000-0000-4000-8000-000000000002''"
    by (simp add: u_def)
  from analysis_id_not_reproducible [of demo_random demo_uuid4 "u ''/tmp/room.jpg''" "u ''Modern''"
      "u ''Living Room''" None "demo_world 1" "demo_world 2" r1 r2] r1 r2 ids ne
  show ?thesis by simp
qed

subsection \<open>Every result comes from the mock generator\<close>

lemma from_mockI:
  fixes w0 :: "('g, 'e, 'c) world"
  shows "mock_generate lib nu p sty rt dims w0 = (Inr r0, w0') \<Longrightarrow> erase_run_meta r = erase_run_meta r0 \<Longrightarrow>
   \<exists>(w0 :: ('g, 'e, 'c) world) r0 w0'. mock_generate lib nu p sty rt dims w0 = (Inr r0, w0')
      \<and> erase_run_meta r = erase_run_meta r0"
  by blast

lemma real_generate_result:
  fixes w :: "('g, 'e, 'c) world"
  assumes "real_generate plat p sty rt dims w = (Inr r, w')"
  shows "\<exists>(w0 :: ('g, 'e, 'c) world) r0 w0'. mock_generate (plat_random plat) (plat_uuid4 plat) p sty rt dims w0 = (Inr r0, w0')
           \<and> erase_run_meta r = erase_run_meta r0"
proof (cases "plat_captioner plat p")
  case CaptionImportError
  with assms have "mock_generate (plat_random plat) (plat_uuid4 plat) p sty rt dims w = (Inr r, w')"
    unfolding real_generate_def by simp
  then show ?thesis by (rule from_mockI) simp
next
  case CaptionError
  with assms have "mock_generate (plat_random plat) (plat_uuid4 plat) p sty rt dims w = (Inr r, w')"
    unfolding real_generate_def by simp
  then show ?thesis by (rule from_mockI) simp
next
  case (Caption c)
  obtain out w1 where m: "mock_generate (plat_random plat) (plat_uuid4 plat) p sty rt dims w = (out, w1)"
    by (cases "mock_generate (plat_random plat) (plat_uuid4 plat) p sty rt dims w")
  show ?thesis
  proof (cases out)
    case (Inl e)
    with assms Caption m
    have "mock_generate (plat_random plat) (plat_uuid4 plat) p sty rt dims w1 = (Inr r, w')"
      unfolding real_generate_def by simp
    then show ?thesis by (rule from_mockI) simp
  next
    case (Inr r0)
    with assms Caption m have "erase_run_meta r = erase_run_meta r0"
      unfolding real_generate_def Let_def by (auto simp: erase_run_meta_def)
    with m [unfolded Inr] show ?thesis by (rule from_mockI)
  qed
qed

lemma generate_design_result:
  fixes w :: "('g, 'e, 'c) world"
  assumes "generate_design plat p sty rt dims um w = (Inr r, w')"
  shows "\<exists>(w0 :: ('g, 'e, 'c) world) r0 w0'. mock_generate (plat_random plat) (plat_uuid4 plat) p (normalize_style sty) rt dims w0 = (Inr r0, w0')
           \<and> erase_run_meta r = erase_run_meta r0"
proof -
  from assms have isf: "plat_isfile plat p"
    by (auto simp: generate_design_def split: if_splits)
  obtain start c1 where pc: "plat_perf_counter plat (clock w) = (start, c1)"
    by (cases "plat_perf_counter plat (clock w)")
  define gen where "gen = (\<lambda>flag. if flag
                 then mock_generate (plat_random plat) (plat_uuid4 plat)
                        p (normalize_style sty) rt dims (w\<lparr>clock := c1\<rparr>)
                 else real_generate plat p (normalize_style sty) rt dims (w\<lparr>clock := c1\<rparr>))"
  from assms isf pc obtain flag r1 w1 where g: "gen flag = (Inr r1, w1)"
    and r: "erase_run_meta r = erase_run_meta r1"
    unfolding generate_design_def Let_def gen_def
    by (auto split: prod.splits sum.splits simp: erase_run_meta_def)
  show ?thesis
  proof (cases flag)
    case True
    with g have "mock_generate (plat_random plat) (plat_uuid4 plat) p (normalize_style sty) rt dims (w\<lparr>clock := c1\<rparr>) = (Inr r1, w1)"
      by (simp add: gen_def)
    then show ?thesis using r by (rule from_mockI)
  next
    case False
    with g have "real_generate plat p (normalize_style sty) rt dims (w\<lparr>clock := c1\<rparr>) = (Inr r1, w1)"
      by (simp add: gen_def)
    from real_generate_result [OF this] obtain w0 :: "('g, 'e, 'c) world" and r0 w0' where
      "mock_generate (plat_random plat) (plat_uuid4 plat) p (normalize_style sty) rt dims w0 = (Inr r0, w0')"
      "erase_run_meta r1 = erase_run_meta r0" by blast
    with r show ?thesis by (intro from_mockI) simp_all
  qed
qed

lemma mock_generate_budget:
  fixes w :: "('g, 'e, 'c) world"
  assumes "mock_generate lib nu p sty rt dims w = (Inr r, w')"
  shows "\<exists>ft lab misc.
           estimated_budget_inr r =
             [(u ''furniture_total'', ft), (u ''labour_estimate'', lab),
              (u ''miscellaneous'', misc), (u ''grand_total'', ft + lab + misc)]
         \<and> ft = sum_list (map price_inr (furniture r))"
proof (cases rule: mock_generate_form
    [where sty = sty and n = "int (length p) + int (length sty)" and lib = lib and new_uuid = nu
       and 'c = 'c])
  case (fail g1)
  from fail [of p rt dims w] assms show ?thesis by simp
next
  case (ok sd picks tip conf ptime colors light labour misc g8)
  from ok(3) [of p rt dims w] assms have
    b: "estimated_budget_inr r =
         [(u ''furniture_total'', sum_list (map price_inr picks)), (u ''labour_estimate'', labour),
          (u ''miscellaneous'', misc),
          (u ''grand_total'', sum_list (map price_inr picks) + labour + misc)]"
    and f: "furniture r = map (furniture_entry sty) (enumerate_from 1 picks)"
    by auto
  have "sum_list (map price_inr picks) = sum_list (map price_inr (furniture r))"
    unfolding f price_of_entries ..
  with b show ?thesis by simp
qed


text \<open>
  Claim C2. In every result, of the mock generator and of \<open>generate_design\<close> in either
  mode, the budget has the four entries in this order, \<open>grand_total\<close> is the sum of the
  other three, and \<open>furniture_total\<close> is the sum of the prices of the selected furniture.
\<close>

theorem budget_grand_total:
  fixes w wd :: "('g, 'e, 'c) world"
  shows "(fst (mock_generate lib nu p sty rt dims w) = Inr r
          \<or> fst (generate_design plat p sty rt dims um wd) = Inr r) \<longrightarrow>
         (\<exists>ft lab misc.
            estimated_budget_inr r =
              [(u ''furniture_total'', ft), (u ''labour_estimate'', lab),
               (u ''miscellaneous'', misc), (u ''grand_total'', ft + lab + misc)]
          \<and> ft = sum_list (map price_inr (furniture r)))"
proof
  assume "fst (mock_generate lib nu p sty rt dims w) = Inr r
          \<or> fst (generate_design plat p sty rt dims um wd) = Inr r"
  then show "\<exists>ft lab misc.
            estimated_budget_inr r =
              [(u ''furniture_total'', ft), (u ''labour_estimate'', lab),
               (u ''miscellaneous'', misc), (u ''grand_total'', ft + lab + misc)]
          \<and> ft = sum_list (map price_inr (furniture r))"
  proof
    assume "fst (mock_generate lib nu p sty rt dims w) = Inr r"
    then have "mock_generate lib nu p sty rt dims w = (Inr r, snd (mock_generate lib nu p sty rt dims w))"
      by (metis prod.collapse)
    then show ?thesis by (rule mock_generate_budget)
  next
    assume "fst (generate_design plat p sty rt dims um wd) = Inr r"
    then have "generate_design plat p sty rt dims um wd = (Inr r, snd (generate_design plat p sty rt dims um wd))"
      by (metis prod.collapse)
    from generate_design_result [OF this] obtain w0 :: "('g, 'e, 'c) world" and r0 w0' where
      m: "mock_generate (plat_random plat) (plat_uuid4 plat) p (normalize_style sty) rt dims w0 = (Inr r0, w0')"
      and e: "erase_run_meta r = erase_run_meta r0" by blast
    have "estimated_budget_inr r = estimated_budget_inr (erase_run_meta r)"
      "furniture r = furniture (erase_run_meta r)"
      "estimated_budget_inr r0 = estimated_budget_inr (erase_run_meta r0)"
      "furniture r0 = furniture (erase_run_meta r0)"
      by (simp_all add: erase_run_meta_def)
    with e have "estimated_budget_inr r = estimated_budget_inr r0" "furniture r = furniture r0"
      by simp_all
    with mock_generate_budget [OF m] show ?thesis by simp
  qed
qed

theorem budget_grand_total_witness:
  "\<exists>r. fst (mock_generate demo_random demo_uuid4 (u ''/tmp/room.jpg'') (u ''Modern'')
             (u ''Living Room'') None (demo_world 1)) = Inr r
     \<and> (\<exists>ft lab misc.
            estimated_budget_inr r =
              [(u ''furniture_total'', ft), (u ''labour_estimate'', lab),
               (u ''miscellaneous'', misc), (u ''grand_total'', ft + lab + misc)]
          \<and> ft = sum_list (map price_inr (furniture r)))"
proof -
  obtain r w' where r: "mock_generate demo_random demo_uuid4 (u ''/tmp/room.jpg'') (u ''Modern'')
             (u ''Living Room'') None (demo_world 1) = (Inr r, w')"
    using mock_generate_succeeds [OF demo_random_contract, where new_uuid = demo_uuid4 and w = "demo_world 1"]
    by blast
  then have h: "fst (mock_generate demo_random demo_uuid4 (u ''/tmp/room.jpg'') (u ''Modern'')
             (u ''Living Room'') None (demo_world 1)) = Inr r" by simp
  from budget_grand_total [where lib = demo_random and nu = demo_uuid4 and p = "u ''/tmp/room.jpg''"
      and sty = "u ''Modern''" and rt = "u ''Living Room''" and dims = None and w = "demo_world 1"
      and r = r] h
  show ?thesis by blast
qed

subsection \<open>The entry point\<close>

lemma mock_generate_error:
  fixes w :: "('g, 'e, 'c) world"
  assumes "mock_generate lib nu p sty rt dims w = (Inl e, w')"
  shows "e = ValueError"
proof (cases rule: mock_generate_form
    [where sty = sty and n = "int (length p) + int (length sty)" and lib = lib and new_uuid = nu
       and 'c = 'c])
  case (fail g1)
  from fail [of p rt dims w] assms show ?thesis by simp
next
  case (ok sd picks tip conf ptime colors light labour misc g8)
  from ok(3) [of p rt dims w] assms show ?thesis by simp
qed

lemma mock_generate_style:
  fixes w :: "('g, 'e, 'c) world"
  assumes "mock_generate lib nu p sty rt dims w = (Inr r, w')"
  shows "style (project_meta r) = sty"
proof (cases rule: mock_generate_form
    [where sty = sty and n = "int (length p) + int (length sty)" and lib = lib and new_uuid = nu
       and 'c = 'c])
  case (fail g1)
  from fail [of p rt dims w] assms show ?thesis by simp
next
  case (ok sd picks tip conf ptime colors light labour misc g8)
  from ok(3) [of p rt dims w] assms show ?thesis by auto
qed

lemma real_generate_error:
  fixes w :: "('g, 'e, 'c) world"
  assumes "real_generate plat p sty rt dims w = (Inl e, w')"
  shows "e = ValueError"
proof (cases "plat_captioner plat p")
  case CaptionImportError
  with assms show ?thesis unfolding real_generate_def by (simp add: mock_generate_error)
next
  case CaptionError
  with assms show ?thesis unfolding real_generate_def by (simp add: mock_generate_error)
next
  case (Caption c)
  obtain out w1 where m: "mock_generate (plat_random plat) (plat_uuid4 plat) p sty rt dims w = (out, w1)"
    by (cases "mock_generate (plat_random plat) (plat_uuid4 plat) p sty rt dims w")
  show ?thesis
  proof (cases out)
    case (Inl e0)
    with assms Caption m
    have "mock_generate (plat_random plat) (plat_uuid4 plat) p sty rt dims w1 = (Inl e, w')"
      unfolding real_generate_def by simp
    then show ?thesis by (rule mock_generate_error)
  next
    case (Inr r0)
    with assms Caption m show ?thesis
      unfolding real_generate_def Let_def by simp
  qed
qed

lemma real_generate_succeeds:
  fixes w :: "('g, 'e, 'c) world"
  assumes c: "random_contract (plat_random plat)"
  shows "\<exists>r w'. real_generate plat p sty rt dims w = (Inr r, w')"
proof -
  obtain r0 w0 where m: "mock_generate (plat_random plat) (plat_uuid4 plat) p sty rt dims w = (Inr r0, w0)"
    using mock_generate_succeeds [OF c, where new_uuid = "plat_uuid4 plat" and w = w] by blast
  show ?thesis
    unfolding real_generate_def Let_def
    by (cases "plat_captioner plat p") (simp_all add: m)
qed

lemma generate_design_succeeds:
  fixes w :: "('g, 'e, 'c) world"
  assumes c: "random_contract (plat_random plat)" and f: "plat_isfile plat p"
  shows "\<exists>r w'. generate_design plat p sty rt dims um w = (Inr r, w')"
proof -
  obtain start c1 where pc: "plat_perf_counter plat (clock w) = (start, c1)"
    by (cases "plat_perf_counter plat (clock w)")
  define flag where "flag = (case um of
                 Some flag \<Rightarrow> flag
               | None \<Rightarrow>
                   (case plat_config plat of
                      None \<Rightarrow> True
                    | Some None \<Rightarrow> True
                    | Some (Some flag) \<Rightarrow> flag))"
  obtain r1 w1 where g: "(if flag
                 then mock_generate (plat_random plat) (plat_uuid4 plat)
                        p (normalize_style sty) rt dims (w\<lparr>clock := c1\<rparr>)
                 else real_generate plat p (normalize_style sty) rt dims (w\<lparr>clock := c1\<rparr>)) = (Inr r1, w1)"
  proof (cases flag)
    case True
    obtain r1 w1 where "mock_generate (plat_random plat) (plat_uuid4 plat)
                        p (normalize_style sty) rt dims (w\<lparr>clock := c1\<rparr>) = (Inr r1, w1)"
      using mock_generate_succeeds [OF c, where new_uuid = "plat_uuid4 plat" and w = "w\<lparr>clock := c1\<rparr>"
          and p = p and sty = "normalize_style sty" and rt = rt and dims = dims] by blast
    with True that show thesis by simp
  next
    case False
    obtain r1 w1 where "real_generate plat p (normalize_style sty) rt dims (w\<lparr>clock := c1\<rparr>) = (Inr r1, w1)"
      using real_generate_succeeds [OF c, where w = "w\<lparr>clock := c1\<rparr>"
          and p = p and sty = "normalize_style sty" and rt = rt and dims = dims] by blast
    with False that show thesis by simp
  qed
  obtain stop c2 where pc2: "plat_perf_counter plat (clock w1) = (stop, c2)"
    by (cases "plat_perf_counter plat (clock w1)")
  show ?thesis
    unfolding generate_design_def Let_def
    using f pc g pc2 by (simp add: flag_def [symmetric])
qed

lemma generate_design_error:
  fixes w :: "('g, 'e, 'c) world"
  assumes "generate_design plat p sty rt dims um w = (Inl e, w')" and f: "plat_isfile plat p"
  shows "e = ValueError"
proof -
  obtain start c1 where pc: "plat_perf_counter plat (clock w) = (start, c1)"
    by (cases "plat_perf_counter plat (clock w)")
  from assms pc show ?thesis
    unfolding generate_design_def Let_def
    by (auto split: if_splits prod.splits sum.splits dest: mock_generate_error real_generate_error)
qed

lemma generate_design_style:
  fixes w :: "('g, 'e, 'c) world"
  assumes "generate_design plat p sty rt dims um w = (Inr r, w')"
  shows "style (project_meta r) = normalize_style sty"
proof -
  from generate_design_result [OF assms] obtain w0 :: "('g, 'e, 'c) world" and r0 w0' where
    m: "mock_generate (plat_random plat) (plat_uuid4 plat) p (normalize_style sty) rt dims w0 = (Inr r0, w0')"
    and e: "erase_run_meta r = erase_run_meta r0" by blast
  have "style (project_meta r) = style (project_meta (erase_run_meta r))"
    "style (project_meta r0) = style (project_meta (erase_run_meta r0))"
    by (simp_all add: erase_run_meta_def)
  with e mock_generate_style [OF m] show ?thesis by simp
qed


lemmas case_defs = title_def is_ascii_lower_def is_ascii_upper_def to_upper_def to_lower_def

lemma style_registry:
  "map fst STYLE_KNOWLEDGE =
     [u ''Modern'', u ''Traditional'', u ''Minimalist'', u ''Bohemian'', u ''Haveli'']"
  by (simp add: STYLE_KNOWLEDGE_def)

lemma registered_style_kept:
  assumes "sty \<in> set [u ''Modern'', u ''Traditional'', u ''Minimalist'', u ''Bohemian'', u ''Haveli'']"
  shows "normalize_style sty = sty"
proof -
  have "title (strip sty) = sty"
    using assms by (auto simp add: str_defs case_defs)
  with assms show ?thesis
    by (simp add: normalize_style_def style_registry del: set_simps)
qed

lemma unregistered_style_default:
  "title (strip sty) \<notin> set (map fst STYLE_KNOWLEDGE) \<Longrightarrow> normalize_style sty = u ''Modern''"
  by (simp add: normalize_style_def DEFAULT_STYLE_def)

lemma demo_platform_simps:
  "plat_random demo_platform = demo_random"
  "plat_isfile demo_platform path \<longleftrightarrow> path = u ''/tmp/room.jpg''"
  by (simp_all add: demo_platform_def)

text \<open>
  Claim C3. \<open>generate_design\<close> raises \<open>FileNotFoundError\<close> exactly when the image
  path is not an existing file. The test is the first thing the function does: when it
  fails, the error is returned with the outside state as it was (no draw from the
  generator or the entropy source, no reading of the clock). For an existing file the
  call returns a result for every style, room type, dimensions and mode, provided the
  \<open>random\<close> library keeps its contract.
\<close>

theorem generate_design_not_found_iff:
  fixes w :: "('g, 'e, 'c) world"
  shows "(\<not> plat_isfile plat p \<longrightarrow>
            generate_design plat p sty rt dims um w = (Inl FileNotFoundError, w))
       \<and> (fst (generate_design plat p sty rt dims um w) = Inl FileNotFoundError
            \<longleftrightarrow> \<not> plat_isfile plat p)
       \<and> (plat_isfile plat p \<and> random_contract (plat_random plat) \<longrightarrow>
            (\<exists>r w'. generate_design plat p sty rt dims um w = (Inr r, w')))"
proof (intro conjI impI)
  assume "\<not> plat_isfile plat p"
  then show "generate_design plat p sty rt dims um w = (Inl FileNotFoundError, w)"
    by (simp add: generate_design_def)
next
  show "fst (generate_design plat p sty rt dims um w) = Inl FileNotFoundError
            \<longleftrightarrow> \<not> plat_isfile plat p"
  proof
    assume e: "fst (generate_design plat p sty rt dims um w) = Inl FileNotFoundError"
    show "\<not> plat_isfile plat p"
    proof
      assume f: "plat_isfile plat p"
      from e have "generate_design plat p sty rt dims um w
          = (Inl FileNotFoundError, snd (generate_design plat p sty rt dims um w))"
        by (metis prod.collapse)
      from generate_design_error [OF this f] show False by simp
    qed
  next
    assume "\<not> plat_isfile plat p"
    then show "fst (generate_design plat p sty rt dims um w) = Inl FileNotFoundError"
      by (simp add: generate_design_def)
  qed
next
  assume "plat_isfile plat p \<and> random_contract (plat_random plat)"
  then show "\<exists>r w'. generate_design plat p sty rt dims um w = (Inr r, w')"
    using generate_design_succeeds by blast
qed

theorem generate_design_not_found_iff_witness:
  "\<not> plat_isfile demo_platform (u ''/no/such/image.jpg'')
   \<and> generate_design demo_platform (u ''/no/such/image.jpg'') (u ''Modern'') (u ''Living Room'')
        None None (demo_world 1) = (Inl FileNotFoundError, demo_world 1)
   \<and> plat_isfile demo_platform (u ''/tmp/room.jpg'')
   \<and> random_contract (plat_random demo_platform)
   \<and> (\<exists>r w'. generate_design demo_platform (u ''/tmp/room.jpg'') (u ''Art Deco'') (u ''Study'')
                 (Some \<lparr>dim_length = Some (Finite 0), dim_width = None\<rparr>) (Some True) (demo_world 1)
               = (Inr r, w'))"
proof -
  have a: "\<not> plat_isfile demo_platform (u ''/no/such/image.jpg'')"
    by (simp add: demo_platform_simps u_def)
  have b: "plat_isfile demo_platform (u ''/tmp/room.jpg'')"
    by (simp add: demo_platform_simps)
  have c: "random_contract (plat_random demo_platform)"
    by (simp add: demo_platform_simps demo_random_contract)
  from generate_design_not_found_iff [of demo_platform "u ''/no/such/image.jpg''" "u ''Modern''"
      "u ''Living Room''" None None "demo_world 1"] a
  have 1: "generate_design demo_platform (u ''/no/such/image.jpg'') (u ''Modern'') (u ''Living Room'')
        None None (demo_world 1) = (Inl FileNotFoundError, demo_world 1)" by blast
  from generate_design_not_found_iff [of demo_platform "u ''/tmp/room.jpg''" "u ''Art Deco''"
      "u ''Study''" "Some \<lparr>dim_length = Some (Finite 0), dim_width = None\<rparr>" "Some True" "demo_world 1"] b c
  have 2: "\<exists>r w'. generate_design demo_platform (u ''/tmp/room.jpg'') (u ''Art Deco'') (u ''Study'')
                 (Some \<lparr>dim_length = Some (Finite 0), dim_width = None\<rparr>) (Some True) (demo_world 1)
               = (Inr r, w')" by blast
  from a b c 1 2 show ?thesis by blast
qed

text \<open>
  Claim C4. The registry has the five styles. A style whose trimmed, title-cased form is
  not a key of the registry (the empty string is such a style) does not make
  \<open>generate_design\<close> fail: the result carries the default style \<open>Modern\<close>. Each of
  the five registered names, given as it is written, is echoed in the result.
\<close>

theorem unknown_style_defaults_to_modern:
  fixes w :: "('g, 'e, 'c) world"
  shows "map fst STYLE_KNOWLEDGE =
           [u ''Modern'', u ''Traditional'', u ''Minimalist'', u ''Bohemian'', u ''Haveli'']
       \<and> title (strip []) \<notin> set (map fst STYLE_KNOWLEDGE)
       \<and> (plat_isfile plat p \<and> random_contract (plat_random plat) \<longrightarrow>
            (title (strip sty) \<notin> set (map fst STYLE_KNOWLEDGE) \<longrightarrow>
               (\<exists>r w'. generate_design plat p sty rt dims um w = (Inr r, w')
                   \<and> style (project_meta r) = u ''Modern''))
          \<and> (sty \<in> set [u ''Modern'', u ''Traditional'', u ''Minimalist'', u ''Bohemian'', u ''Haveli''] \<longrightarrow>
               (\<exists>r w'. generate_design plat p sty rt dims um w = (Inr r, w')
                   \<and> style (project_meta r) = sty)))"
proof (intro conjI impI)
  show "map fst STYLE_KNOWLEDGE =
           [u ''Modern'', u ''Traditional'', u ''Minimalist'', u ''Bohemian'', u ''Haveli'']"
    by (rule style_registry)
  show "title (strip []) \<notin> set (map fst STYLE_KNOWLEDGE)"
    by (simp add: style_registry str_defs case_defs)
next
  assume h: "plat_isfile plat p \<and> random_contract (plat_random plat)"
  then obtain r w' where g: "generate_design plat p sty rt dims um w = (Inr r, w')"
    using generate_design_succeeds [where plat = plat and p = p and w = w] by blast
  {
    assume "title (strip sty) \<notin> set (map fst STYLE_KNOWLEDGE)"
    then have "normalize_style sty = u ''Modern''" by (rule unregistered_style_default)
    with generate_design_style [OF g] g
    show "\<exists>r w'. generate_design plat p sty rt dims um w = (Inr r, w')
                   \<and> style (project_meta r) = u ''Modern''" by simp
  }
  {
    assume "sty \<in> set [u ''Modern'', u ''Traditional'', u ''Minimalist'', u ''Bohemian'', u ''Haveli'']"
    then have "normalize_style sty = sty" by (rule registered_style_kept)
    with generate_design_style [OF g] g
    show "\<exists>r w'. generate_design plat p sty rt dims um w = (Inr r, w')
                   \<and> style (project_meta r) = sty" by simp
  }
qed

theorem unknown_style_defaults_to_modern_witness:
  "plat_isfile demo_platform (u ''/tmp/room.jpg'') \<and> random_contract (plat_random demo_platform)
   \<and> title (strip (u ''  notAstyle '')) = u ''Notastyle''
   \<and> title (strip (u ''  notAstyle '')) \<notin> set (map fst STYLE_KNOWLEDGE)
   \<and> (\<exists>r w'. generate_design demo_platform (u ''/tmp/room.jpg'') (u ''  notAstyle '') (u ''Study'')
                 None (Some True) (demo_world 1) = (Inr r, w')
             \<and> style (project_meta r) = u ''Modern'')
   \<and> (\<exists>r w'. generate_design demo_platform (u ''/tmp/room.jpg'') (u ''Haveli'') (u ''Study'')
                 None (Some True) (demo_world 1) = (Inr r, w')
             \<and> style (project_meta r) = u ''Haveli'')"
proof -
  have b: "plat_isfile demo_platform (u ''/tmp/room.jpg'')"
    by (simp add: demo_platform_simps)
  have c: "random_contract (plat_random demo_platform)"
    by (simp add: demo_platform_simps demo_random_contract)
  have t: "title (strip (u ''  notAstyle '')) = u ''Notastyle''"
    by (simp add: str_defs case_defs)
  have n: "title (strip (u ''  notAstyle '')) \<notin> set (map fst STYLE_KNOWLEDGE)"
    unfolding t by (simp add: style_registry u_def)
  have m: "u ''Haveli'' \<in> set [u ''Modern'', u ''Traditional'', u ''Minimalist'', u ''Bohemian'', u ''Haveli'']"
    by simp
  from unknown_style_defaults_to_modern [where sty = "u ''  notAstyle ''" and plat = demo_platform
      and p = "u ''/tmp/room.jpg''" and rt = "u ''Study''" and dims = None and um = "Some True"
      and w = "demo_world 1"] b c n
  have 1: "\<exists>r w'. generate_design demo_platform (u ''/tmp/room.jpg'') (u ''  notAstyle '') (u ''Study'')
                 None (Some True) (demo_world 1) = (Inr r, w')
             \<and> style (project_meta r) = u ''Modern''" by blast
  from unknown_style_defaults_to_modern [where sty = "u ''Haveli''" and plat = demo_platform
      and p = "u ''/tmp/room.jpg''" and rt = "u ''Study''" and dims = None and um = "Some True"
      and w = "demo_world 1"] b c m
  have 2: "\<exists>r w'. generate_design demo_platform (u ''/tmp/room.jpg'') (u ''Haveli'') (u ''Study'')
                 None (Some True) (demo_world 1) = (Inr r, w')
             \<and> style (project_meta r) = u ''Haveli''" by blast
  from b c t n 1 2 show ?thesis by blast
qed

subsection \<open>Room area and placement notes\<close>

lemma mock_generate_notes:
  fixes w :: "('g, 'e, 'c) world"
  assumes "mock_generate lib nu p sty rt dims w = (Inr r, w')"
  shows "room_area_sqft (project_meta r) = room_area_of dims
       \<and> (\<exists>sd tip. get_style_data sty = Inr sd \<and> first_item (kb_tips sd) = Inr tip
            \<and> plan_notes (placement_plan r)
               = (case room_area_of dims of None \<Rightarrow> [] | Some a \<Rightarrow> area_notes a) @ fixed_notes sty tip)"
proof (cases rule: mock_generate_form
    [where sty = sty and n = "int (length p) + int (length sty)" and lib = lib and new_uuid = nu
       and 'c = 'c])
  case (fail g1)
  from fail [of p rt dims w] assms show ?thesis by simp
next
  case (ok sd picks tip conf ptime colors light labour misc g8)
  from ok(3) [of p rt dims w] assms have
    "room_area_sqft (project_meta r) = room_area_of dims"
    "plan_notes (placement_plan r)
       = (case room_area_of dims of None \<Rightarrow> [] | Some a \<Rightarrow> area_notes a) @ fixed_notes sty tip"
    by auto
  with ok(1,2) show ?thesis by blast
qed

lemma room_area_of_supplied:
  "float_truthy l \<Longrightarrow> float_truthy wd \<Longrightarrow>
   room_area_of (Some \<lparr>dim_length = Some l, dim_width = Some wd\<rparr>)
     = Some (round_nd (float_mul l wd) 1)"
  by (simp add: room_area_of_def truthy_def)

lemma room_area_of_zero:
  "is_zero l \<or> is_zero wd \<Longrightarrow>
   room_area_of (Some \<lparr>dim_length = Some l, dim_width = Some wd\<rparr>) = None"
  by (auto simp add: room_area_of_def truthy_def float_truthy_def)

text \<open>The three bands cover every float, and no two of them overlap.\<close>

lemma float_le_not_lt: "float_le x a \<Longrightarrow> \<not> float_lt a x"
  by (auto simp add: float_le_def float_lt_def)

lemma float_lt_or_le: "a \<noteq> NaN \<Longrightarrow> x \<noteq> NaN \<Longrightarrow> float_lt a x \<or> float_le x a"
  by (auto simp add: float_le_def float_lt_def)

lemma float_lt_100_200: "float_lt a (Finite 100) \<Longrightarrow> float_lt a (Finite 200)"
  by (cases a) (auto simp add: float_lt_def float_key_def)

lemma float_lt_nan: "\<not> float_lt NaN x"
  by (simp add: float_lt_def)

lemma area_notes_small:
  "float_lt a (Finite 100) \<Longrightarrow> area_notes a = small_room_notes"
  by (simp add: area_notes_def small_room_notes_def)

lemma area_notes_medium:
  "float_le (Finite 100) a \<Longrightarrow> float_lt a (Finite 200) \<Longrightarrow> area_notes a = medium_room_notes"
  by (simp add: area_notes_def medium_room_notes_def float_le_not_lt)

lemma area_notes_large:
  assumes "float_le (Finite 200) a \<or> a = NaN"
  shows "area_notes a = large_room_notes"
proof -
  from assms have 2: "\<not> float_lt a (Finite 200)"
    by (auto simp add: float_le_not_lt float_lt_nan)
  with float_lt_100_200 [of a] have "\<not> float_lt a (Finite 100)"
    by blast
  with 2 show ?thesis
    by (simp add: area_notes_def large_room_notes_def)
qed

lemma area_band_cases:
  "float_lt a (Finite 100)
   \<or> (float_le (Finite 100) a \<and> float_lt a (Finite 200))
   \<or> (float_le (Finite 200) a \<or> a = NaN)"
  using float_lt_or_le [of a "Finite 100"] float_lt_or_le [of a "Finite 200"]
  by auto

text \<open>
  Floor and ceiling of a quotient of numerals, and the steps of \<open>to_double\<close> and
  \<open>round_nd\<close> one at a time, so that a concrete float computation is checked from
  its exponent and its significand.
\<close>

lemma rat_floor:
  "\<lfloor>(numeral a :: rat) / numeral b\<rfloor> = numeral a div numeral b"
  "\<lceil>(numeral a :: rat) / numeral b\<rceil> = - (- numeral a div numeral b)"
proof -
  show "\<lfloor>(numeral a :: rat) / numeral b\<rfloor> = numeral a div numeral b"
    using floor_divide_of_int_eq [of "numeral a" "numeral b", where ?'a = rat] by simp
  have "\<lceil>(numeral a :: rat) / numeral b\<rceil>
      = - \<lfloor>(of_int (- numeral a) :: rat) / of_int (numeral b)\<rfloor>"
    by (simp add: ceiling_def)
  also have "\<dots> = - (- numeral a div numeral b)"
    by (simp only: floor_divide_of_int_eq)
  finally show "\<lceil>(numeral a :: rat) / numeral b\<rceil> = - (- numeral a div numeral b)" .
qed

lemma to_double_cert:
  assumes "ilog2 \<bar>x\<bar> = e"
    and "round_half_even (\<bar>x\<bar> / pow2 (max e (- 1022) - 52)) = m"
    and "rat_of_int m * pow2 (max e (- 1022) - 52) = v"
    and "\<not> pow2 1024 \<le> v"
    and "0 < x" and "v \<noteq> 0"
  shows "to_double x = Finite v"
  using assms by (simp add: to_double_def Let_def)

lemma float_mul_finite:
  "a \<noteq> 0 \<Longrightarrow> b \<noteq> 0 \<Longrightarrow> float_mul (Finite a) (Finite b) = to_double (a * b)"
  by (simp add: float_mul_def is_inf_def is_zero_def)

lemma round_nd_cert:
  assumes "round_half_even (a * 10 ^ n) = k" and "rat_of_int k / 10 ^ n = r" and "r \<noteq> 0"
  shows "round_nd (Finite a) n = to_double r"
  using assms by (simp add: round_nd_def Let_def)

text \<open>
  The doubles of this section: 180 and 200 are doubles themselves; the literal
  \<open>13.33\<close> is the double \<open>7504122879106089 / 2^49\<close>, its product with 15 rounds to
  the double \<open>3517557599580979 / 2^44\<close>, a little above 199.949, and the literal
  \<open>199.9\<close> is the double \<open>7033355980557517 / 2^45\<close>.
\<close>

lemma double_180: "to_double 180 = Finite 180"
proof -
  have h1: "ilog2 \<bar>180\<bar> = 7"
    by (simp add: ilog2_def bit_length.simps rat_floor)
  have h2: "round_half_even (\<bar>180\<bar> / pow2 (max 7 (- 1022) - 52)) = 6333186975989760"
    by (simp add: pow2_def round_half_even_def rat_floor Let_def)
  have h3: "rat_of_int 6333186975989760 * pow2 (max 7 (- 1022) - 52) = 180"
    by (simp add: pow2_def)
  have h4: "\<not> pow2 1024 \<le> (180 :: rat)" by (simp add: pow2_def)
  show ?thesis by (rule to_double_cert [OF h1 h2 h3 h4]) simp_all
qed

lemma double_200: "to_double 200 = Finite 200"
proof -
  have h1: "ilog2 \<bar>200\<bar> = 7"
    by (simp add: ilog2_def bit_length.simps rat_floor)
  have h2: "round_half_even (\<bar>200\<bar> / pow2 (max 7 (- 1022) - 52)) = 7036874417766400"
    by (simp add: pow2_def round_half_even_def rat_floor Let_def)
  have h3: "rat_of_int 7036874417766400 * pow2 (max 7 (- 1022) - 52) = 200"
    by (simp add: pow2_def)
  have h4: "\<not> pow2 1024 \<le> (200 :: rat)" by (simp add: pow2_def)
  show ?thesis by (rule to_double_cert [OF h1 h2 h3 h4]) simp_all
qed

lemma double_13_33: "to_double (1333 / 100) = Finite (7504122879106089 / 562949953421312)"
proof -
  have h1: "ilog2 \<bar>1333 / 100\<bar> = 3"
    by (simp add: ilog2_def bit_length.simps rat_floor)
  have h2: "round_half_even (\<bar>1333 / 100\<bar> / pow2 (max 3 (- 1022) - 52)) = 7504122879106089"
    by (simp add: pow2_def round_half_even_def rat_floor Let_def)
  have h3: "rat_of_int 7504122879106089 * pow2 (max 3 (- 1022) - 52) = 7504122879106089 / 562949953421312"
    by (simp add: pow2_def)
  have h4: "\<not> pow2 1024 \<le> (7504122879106089 / 562949953421312 :: rat)" by (simp add: pow2_def)
  show ?thesis by (rule to_double_cert [OF h1 h2 h3 h4]) simp_all
qed

lemma double_13_33_times_15: "to_double (112561843186591335 / 562949953421312) = Finite (3517557599580979 / 17592186044416)"
proof -
  have h1: "ilog2 \<bar>112561843186591335 / 562949953421312\<bar> = 7"
    by (simp add: ilog2_def bit_length.simps rat_floor)
  have h2: "round_half_even (\<bar>112561843186591335 / 562949953421312\<bar> / pow2 (max 7 (- 1022) - 52)) = 7035115199161958"
    by (simp add: pow2_def round_half_even_def rat_floor Let_def)
  have h3: "rat_of_int 7035115199161958 * pow2 (max 7 (- 1022) - 52) = 3517557599580979 / 17592186044416"
    by (simp add: pow2_def)
  have h4: "\<not> pow2 1024 \<le> (3517557599580979 / 17592186044416 :: rat)" by (simp add: pow2_def)
  show ?thesis by (rule to_double_cert [OF h1 h2 h3 h4]) simp_all
qed

lemma double_199_9: "to_double (1999 / 10) = Finite (7033355980557517 / 35184372088832)"
proof -
  have h1: "ilog2 \<bar>1999 / 10\<bar> = 7"
    by (simp add: ilog2_def bit_length.simps rat_floor)
  have h2: "round_half_even (\<bar>1999 / 10\<bar> / pow2 (max 7 (- 1022) - 52)) = 7033355980557517"
    by (simp add: pow2_def round_half_even_def rat_floor Let_def)
  have h3: "rat_of_int 7033355980557517 * pow2 (max 7 (- 1022) - 52) = 7033355980557517 / 35184372088832"
    by (simp add: pow2_def)
  have h4: "\<not> pow2 1024 \<le> (7033355980557517 / 35184372088832 :: rat)" by (simp add: pow2_def)
  show ?thesis by (rule to_double_cert [OF h1 h2 h3 h4]) simp_all
qed

text \<open>The three rooms of this section: 15 by 12, 20 by 10 and 13.33 by 15.\<close>

lemma area_15_by_12: "round_nd (float_mul (Finite 15) (Finite 12)) 1 = Finite 180"
proof -
  have "float_mul (Finite 15) (Finite 12) = Finite 180"
    by (simp add: float_mul_finite double_180)
  moreover have "round_nd (Finite 180) 1 = to_double 180"
    by (rule round_nd_cert [where k = 1800]) (simp_all add: round_half_even_def)
  ultimately show ?thesis by (simp add: double_180)
qed

lemma area_20_by_10: "round_nd (float_mul (Finite 20) (Finite 10)) 1 = Finite 200"
proof -
  have "float_mul (Finite 20) (Finite 10) = Finite 200"
    by (simp add: float_mul_finite double_200)
  moreover have "round_nd (Finite 200) 1 = to_double 200"
    by (rule round_nd_cert [where k = 2000]) (simp_all add: round_half_even_def)
  ultimately show ?thesis by (simp add: double_200)
qed

lemma area_13_33_by_15:
  "round_nd (float_mul (to_double (1333 / 100)) (Finite 15)) 1 = to_double (1999 / 10)"
proof -
  have "float_mul (to_double (1333 / 100)) (Finite 15)
      = to_double (112561843186591335 / 562949953421312)"
    unfolding double_13_33 by (simp add: float_mul_finite)
  moreover have "round_nd (Finite (3517557599580979 / 17592186044416)) 1 = to_double (1999 / 10)"
    by (rule round_nd_cert [where k = 1999]) (simp_all add: round_half_even_def rat_floor Let_def)
  ultimately show ?thesis by (simp add: double_13_33_times_15)
qed

lemma band_of_180: "float_le (Finite 100) (Finite 180)" "float_lt (Finite 180) (Finite 200)"
  by (simp_all add: float_le_def float_lt_def float_key_def)

lemma band_of_199_9:
  "float_le (Finite 100) (to_double (1999 / 10))" "float_lt (to_double (1999 / 10)) (Finite 200)"
  by (simp_all add: double_199_9 float_le_def float_lt_def float_key_def)

lemma band_of_200: "float_le (Finite 200) (Finite 200)"
  by (simp add: float_le_def float_key_def)

lemma truthy_examples:
  "float_truthy (Finite 15)" "float_truthy (Finite 12)" "float_truthy (Finite 20)"
  "float_truthy (Finite 10)" "float_truthy (to_double (1333 / 100))" "is_zero (Finite 0)"
  by (simp_all add: float_truthy_def is_zero_def double_13_33)

text \<open>
  Claim C5, as amended. When length and width are both supplied and neither is a zero,
  \<open>room_area\<close> is \<open>round(length * width, 1)\<close> in float arithmetic: the product is
  rounded to a double before it is rounded to one decimal. The band of that area picks the
  first two notes: below 100 the small-room notes, from 100 up to but not including 200
  the medium-room notes, from 200 on the large-room notes; an area that is not a number
  fails both comparisons and gets the large-room notes as well. In every case, also
  without an area, the plan ends with the clearance note, the light-orientation note and
  the first tip of the style.
\<close>

theorem area_bands:
  fixes w :: "('g, 'e, 'c) world"
  shows "mock_generate lib nu p sty rt dims w = (Inr r, w') \<longrightarrow>
    (\<exists>sd tip. get_style_data sty = Inr sd \<and> first_item (kb_tips sd) = Inr tip
      \<and> (\<forall>l wd a. dims = Some \<lparr>dim_length = Some l, dim_width = Some wd\<rparr>
            \<and> float_truthy l \<and> float_truthy wd \<and> a = round_nd (float_mul l wd) 1 \<longrightarrow>
            room_area_sqft (project_meta r) = Some a
          \<and> (float_lt a (Finite 100) \<longrightarrow>
               plan_notes (placement_plan r) = small_room_notes @ closing_notes sty tip)
          \<and> (float_le (Finite 100) a \<and> float_lt a (Finite 200) \<longrightarrow>
               plan_notes (placement_plan r) = medium_room_notes @ closing_notes sty tip)
          \<and> (float_le (Finite 200) a \<or> a = NaN \<longrightarrow>
               plan_notes (placement_plan r) = large_room_notes @ closing_notes sty tip))
      \<and> (room_area_sqft (project_meta r) = None \<longrightarrow>
            plan_notes (placement_plan r) = closing_notes sty tip))"
proof
  assume m: "mock_generate lib nu p sty rt dims w = (Inr r, w')"
  from mock_generate_notes [OF m] obtain sd tip where
    a: "room_area_sqft (project_meta r) = room_area_of dims"
    and sd: "get_style_data sty = Inr sd" and tip: "first_item (kb_tips sd) = Inr tip"
    and n: "plan_notes (placement_plan r)
       = (case room_area_of dims of None \<Rightarrow> [] | Some a \<Rightarrow> area_notes a) @ fixed_notes sty tip"
    by blast
  have c: "fixed_notes sty tip = closing_notes sty tip"
    by (simp add: fixed_notes_def closing_notes_def)
  have 1: "(\<forall>l wd a. dims = Some \<lparr>dim_length = Some l, dim_width = Some wd\<rparr>
            \<and> float_truthy l \<and> float_truthy wd \<and> a = round_nd (float_mul l wd) 1 \<longrightarrow>
            room_area_sqft (project_meta r) = Some a
          \<and> (float_lt a (Finite 100) \<longrightarrow>
               plan_notes (placement_plan r) = small_room_notes @ closing_notes sty tip)
          \<and> (float_le (Finite 100) a \<and> float_lt a (Finite 200) \<longrightarrow>
               plan_notes (placement_plan r) = medium_room_notes @ closing_notes sty tip)
          \<and> (float_le (Finite 200) a \<or> a = NaN \<longrightarrow>
               plan_notes (placement_plan r) = large_room_notes @ closing_notes sty tip))"
  proof (intro allI impI)
    fix l wd a
    assume h: "dims = Some \<lparr>dim_length = Some l, dim_width = Some wd\<rparr>
            \<and> float_truthy l \<and> float_truthy wd \<and> a = round_nd (float_mul l wd) 1"
    then have ra: "room_area_of dims = Some a"
      by (simp add: room_area_of_supplied)
    with n c have pn: "plan_notes (placement_plan r) = area_notes a @ closing_notes sty tip"
      by simp
    show "room_area_sqft (project_meta r) = Some a
          \<and> (float_lt a (Finite 100) \<longrightarrow>
               plan_notes (placement_plan r) = small_room_notes @ closing_notes sty tip)
          \<and> (float_le (Finite 100) a \<and> float_lt a (Finite 200) \<longrightarrow>
               plan_notes (placement_plan r) = medium_room_notes @ closing_notes sty tip)
          \<and> (float_le (Finite 200) a \<or> a = NaN \<longrightarrow>
               plan_notes (placement_plan r) = large_room_notes @ closing_notes sty tip)"
      using a ra pn area_notes_small [of a] area_notes_medium [of a] area_notes_large [of a]
      by simp
  qed
  have 2: "room_area_sqft (project_meta r) = None \<longrightarrow>
            plan_notes (placement_plan r) = closing_notes sty tip"
    using a n c by simp
  show "\<exists>sd tip. get_style_data sty = Inr sd \<and> first_item (kb_tips sd) = Inr tip
      \<and> (\<forall>l wd a. dims = Some \<lparr>dim_length = Some l, dim_width = Some wd\<rparr>
            \<and> float_truthy l \<and> float_truthy wd \<and> a = round_nd (float_mul l wd) 1 \<longrightarrow>
            room_area_sqft (project_meta r) = Some a
          \<and> (float_lt a (Finite 100) \<longrightarrow>
               plan_notes (placement_plan r) = small_room_notes @ closing_notes sty tip)
          \<and> (float_le (Finite 100) a \<and> float_lt a (Finite 200) \<longrightarrow>
               plan_notes (placement_plan r) = medium_room_notes @ closing_notes sty tip)
          \<and> (float_le (Finite 200) a \<or> a = NaN \<longrightarrow>
               plan_notes (placement_plan r) = large_room_notes @ closing_notes sty tip))
      \<and> (room_area_sqft (project_meta r) = None \<longrightarrow>
            plan_notes (placement_plan r) = closing_notes sty tip)"
    by (rule exI [where x = sd], rule exI [where x = tip], intro conjI sd tip 1 2)
qed

text \<open>
  The theorem at two rooms. A room of 15 by 12 has area 180.0 and the medium-room notes.
  A room of 13.33 by 15 has area 199.9 and the medium-room notes: the float product is
  a little above 199.949 and rounds down, where the product of the decimals, 199.95,
  would be a tie.
\<close>

theorem area_bands_witness:
  "(\<exists>r w'. mock_generate demo_random demo_uuid4 (u ''/tmp/room.jpg'') (u ''Modern'')
      (u ''Living Room'') (Some \<lparr>dim_length = Some (Finite 15), dim_width = Some (Finite 12)\<rparr>) (demo_world 1) = (Inr r, w')
     \<and> room_area_sqft (project_meta r) = Some (Finite 180)
     \<and> take 2 (plan_notes (placement_plan r)) = medium_room_notes
     \<and> length (plan_notes (placement_plan r)) = 5)
   \<and> (\<exists>r w'. mock_generate demo_random demo_uuid4 (u ''/tmp/room.jpg'') (u ''Modern'')
      (u ''Living Room'') (Some \<lparr>dim_length = Some (to_double (1333 / 100)), dim_width = Some (Finite 15)\<rparr>) (demo_world 1) = (Inr r, w')
     \<and> room_area_sqft (project_meta r) = Some (to_double (1999 / 10))
     \<and> take 2 (plan_notes (placement_plan r)) = medium_room_notes
     \<and> length (plan_notes (placement_plan r)) = 5)"
proof
  obtain r w' where m: "mock_generate demo_random demo_uuid4 (u ''/tmp/room.jpg'') (u ''Modern'')
      (u ''Living Room'') (Some \<lparr>dim_length = Some (Finite 15), dim_width = Some (Finite 12)\<rparr>) (demo_world 1) = (Inr r, w')"
    using mock_generate_succeeds [OF demo_random_contract, where new_uuid = demo_uuid4 and w = "demo_world 1"]
    by blast
  from area_bands [where lib = demo_random and nu = demo_uuid4 and p = "u ''/tmp/room.jpg''"
      and sty = "u ''Modern''" and rt = "u ''Living Room''"
      and dims = "Some \<lparr>dim_length = Some (Finite 15), dim_width = Some (Finite 12)\<rparr>" and w = "demo_world 1"
      and r = r and w' = w'] m
  obtain sd tip where
    b: "(\<forall>l wd a. Some \<lparr>dim_length = Some (Finite 15), dim_width = Some (Finite 12)\<rparr>
            = Some \<lparr>dim_length = Some l, dim_width = Some wd\<rparr>
            \<and> float_truthy l \<and> float_truthy wd \<and> a = round_nd (float_mul l wd) 1 \<longrightarrow>
            room_area_sqft (project_meta r) = Some a
          \<and> (float_lt a (Finite 100) \<longrightarrow>
               plan_notes (placement_plan r) = small_room_notes @ closing_notes (u ''Modern'') tip)
          \<and> (float_le (Finite 100) a \<and> float_lt a (Finite 200) \<longrightarrow>
               plan_notes (placement_plan r) = medium_room_notes @ closing_notes (u ''Modern'') tip)
          \<and> (float_le (Finite 200) a \<or> a = NaN \<longrightarrow>
               plan_notes (placement_plan r) = large_room_notes @ closing_notes (u ''Modern'') tip))"
    by blast
  from b [rule_format, of "Finite 15" "Finite 12" "Finite 180"] have
    "room_area_sqft (project_meta r) = Some (Finite 180)"
    "plan_notes (placement_plan r) = medium_room_notes @ closing_notes (u ''Modern'') tip"
    by (simp_all add: area_15_by_12 band_of_180 truthy_examples del: One_nat_def)
  then have "room_area_sqft (project_meta r) = Some (Finite 180)
     \<and> take 2 (plan_notes (placement_plan r)) = medium_room_notes
     \<and> length (plan_notes (placement_plan r)) = 5"
    by (simp add: medium_room_notes_def closing_notes_def)
  with m show "\<exists>r w'. mock_generate demo_random demo_uuid4 (u ''/tmp/room.jpg'') (u ''Modern'')
      (u ''Living Room'') (Some \<lparr>dim_length = Some (Finite 15), dim_width = Some (Finite 12)\<rparr>) (demo_world 1) = (Inr r, w')
     \<and> room_area_sqft (project_meta r) = Some (Finite 180)
     \<and> take 2 (plan_notes (placement_plan r)) = medium_room_notes
     \<and> length (plan_notes (placement_plan r)) = 5"
    by blast
next
  obtain r w' where m: "mock_generate demo_random demo_uuid4 (u ''/tmp/room.jpg'') (u ''Modern'')
      (u ''Living Room'') (Some \<lparr>dim_length = Some (to_double (1333 / 100)), dim_width = Some (Finite 15)\<rparr>) (demo_world 1) = (Inr r, w')"
    using mock_generate_succeeds [OF demo_random_contract, where new_uuid = demo_uuid4 and w = "demo_world 1"]
    by blast
  from area_bands [where lib = demo_random and nu = demo_uuid4 and p = "u ''/tmp/room.jpg''"
      and sty = "u ''Modern''" and rt = "u ''Living Room''"
      and dims = "Some \<lparr>dim_length = Some (to_double (1333 / 100)), dim_width = Some (Finite 15)\<rparr>" and w = "demo_world 1"
      and r = r and w' = w'] m
  obtain sd tip where
    b: "(\<forall>l wd a. Some \<lparr>dim_length = Some (to_double (1333 / 100)), dim_width = Some (Finite 15)\<rparr>
            = Some \<lparr>dim_length = Some l, dim_width = Some wd\<rparr>
            \<and> float_truthy l \<and> float_truthy wd \<and> a = round_nd (float_mul l wd) 1 \<longrightarrow>
            room_area_sqft (project_meta r) = Some a
          \<and> (float_lt a (Finite 100) \<longrightarrow>
               plan_notes (placement_plan r) = small_room_notes @ closing_notes (u ''Modern'') tip)
          \<and> (float_le (Finite 100) a \<and> float_lt a (Finite 200) \<longrightarrow>
               plan_notes (placement_plan r) = medium_room_notes @ closing_notes (u ''Modern'') tip)
          \<and> (float_le (Finite 200) a \<or> a = NaN \<longrightarrow>
               plan_notes (placement_plan r) = large_room_notes @ closing_notes (u ''Modern'') tip))"
    by blast
  from b [rule_format, of "to_double (1333 / 100)" "Finite 15" "to_double (1999 / 10)"] have
    "room_area_sqft (project_meta r) = Some (to_double (1999 / 10))"
    "plan_notes (placement_plan r) = medium_room_notes @ closing_notes (u ''Modern'') tip"
    by (simp_all add: area_13_33_by_15 band_of_199_9 truthy_examples del: One_nat_def)
  then have "room_area_sqft (project_meta r) = Some (to_double (1999 / 10))
     \<and> take 2 (plan_notes (placement_plan r)) = medium_room_notes
     \<and> length (plan_notes (placement_plan r)) = 5"
    by (simp add: medium_room_notes_def closing_notes_def)
  with m show "\<exists>r w'. mock_generate demo_random demo_uuid4 (u ''/tmp/room.jpg'') (u ''Modern'')
      (u ''Living Room'') (Some \<lparr>dim_length = Some (to_double (1333 / 100)), dim_width = Some (Finite 15)\<rparr>) (demo_world 1) = (Inr r, w')
     \<and> room_area_sqft (project_meta r) = Some (to_double (1999 / 10))
     \<and> take 2 (plan_notes (placement_plan r)) = medium_room_notes
     \<and> length (plan_notes (placement_plan r)) = 5"
    by blast
qed

text \<open>
  The claim as it is written puts the area 200 in the band 100--200 of the medium-room
  notes and takes the area from any supplied pair. A room of 20 by 10 has area 200.0 and
  gets the large-room notes; a supplied length of 0.0 gives no area at all.
\<close>

theorem area_bands_counterexample:
  "map_option (room_area_sqft \<circ> project_meta)
     (result_of (mock_generate demo_random demo_uuid4 (u ''/tmp/room.jpg'') (u ''Modern'')
      (u ''Living Room'') (Some \<lparr>dim_length = Some (Finite 20), dim_width = Some (Finite 10)\<rparr>) (demo_world 1)))
     = Some (Some (Finite 200))
   \<and> map_option (take 2 \<circ> plan_notes \<circ> placement_plan)
     (result_of (mock_generate demo_random demo_uuid4 (u ''/tmp/room.jpg'') (u ''Modern'')
      (u ''Living Room'') (Some \<lparr>dim_length = Some (Finite 20), dim_width = Some (Finite 10)\<rparr>) (demo_world 1)))
     = Some large_room_notes
   \<and> large_room_notes \<noteq> medium_room_notes
   \<and> map_option (room_area_sqft \<circ> project_meta)
     (result_of (mock_generate demo_random demo_uuid4 (u ''/tmp/room.jpg'') (u ''Modern'')
      (u ''Living Room'') (Some \<lparr>dim_length = Some (Finite 0), dim_width = Some (Finite 12)\<rparr>) (demo_world 1)))
     = Some None"
proof -
  obtain r w' where m: "mock_generate demo_random demo_uuid4 (u ''/tmp/room.jpg'') (u ''Modern'')
      (u ''Living Room'') (Some \<lparr>dim_length = Some (Finite 20), dim_width = Some (Finite 10)\<rparr>) (demo_world 1) = (Inr r, w')"
    using mock_generate_succeeds [OF demo_random_contract, where new_uuid = demo_uuid4 and w = "demo_world 1"]
    by blast
  obtain r0 w0' where m0: "mock_generate demo_random demo_uuid4 (u ''/tmp/room.jpg'') (u ''Modern'')
      (u ''Living Room'') (Some \<lparr>dim_length = Some (Finite 0), dim_width = Some (Finite 12)\<rparr>) (demo_world 1) = (Inr r0, w0')"
    using mock_generate_succeeds [OF demo_random_contract, where new_uuid = demo_uuid4 and w = "demo_world 1"]
    by blast
  have a: "room_area_of (Some \<lparr>dim_length = Some (Finite 20), dim_width = Some (Finite 10)\<rparr>) = Some (Finite 200)"
    by (simp add: room_area_of_supplied truthy_examples area_20_by_10 del: One_nat_def)
  have a0: "room_area_of (Some \<lparr>dim_length = Some (Finite 0), dim_width = Some (Finite 12)\<rparr>) = None"
    by (simp add: room_area_of_zero truthy_examples)
  from mock_generate_notes [OF m] a have
    1: "room_area_sqft (project_meta r) = Some (Finite 200)"
    and 2: "take 2 (plan_notes (placement_plan r)) = large_room_notes"
    by (auto simp add: area_notes_large band_of_200 large_room_notes_def)
  from mock_generate_notes [OF m0] a0 have 3: "room_area_sqft (project_meta r0) = None"
    by simp
  have 4: "large_room_notes \<noteq> medium_room_notes"
    by (simp add: large_room_notes_def medium_room_notes_def u_def)
  have r1: "result_of (mock_generate demo_random demo_uuid4 (u ''/tmp/room.jpg'') (u ''Modern'')
      (u ''Living Room'') (Some \<lparr>dim_length = Some (Finite 20), dim_width = Some (Finite 10)\<rparr>) (demo_world 1)) = Some r"
    unfolding result_of_def m by simp
  have r2: "result_of (mock_generate demo_random demo_uuid4 (u ''/tmp/room.jpg'') (u ''Modern'')
      (u ''Living Room'') (Some \<lparr>dim_length = Some (Finite 0), dim_width = Some (Finite 12)\<rparr>) (demo_world 1)) = Some r0"
    unfolding result_of_def m0 by simp
  show ?thesis
    unfolding r1 r2 using 1 2 3 4 by simp
qed

subsection \<open>The voice agent\<close>

lemma greetings_keys: "map fst LANG_GREETINGS = [u ''en'', u ''hi'', u ''te'']"
  by (simp add: LANG_GREETINGS_def)

lemma greetings_en: "map_of LANG_GREETINGS (u ''en'') = Some english_greeting"
  by (simp add: LANG_GREETINGS_def english_greeting_def)

lemma greetings_other:
  "language \<notin> set [u ''en'', u ''hi'', u ''te''] \<Longrightarrow> map_of LANG_GREETINGS language = None"
  unfolding greetings_keys [symmetric] by (simp add: map_of_eq_None_iff)

lemma short_examples:
  "length (split (strip (u ''Hi''))) \<le> 2"
  "length (split (strip (u ''  vastu   tips ''))) \<le> 2"
  by (simp_all add: split_def str_defs)

text \<open>
  Claim C6. The greetings are keyed by the three codes \<open>en\<close>, \<open>hi\<close> and \<open>te\<close>. For
  a query whose trimmed text has at most two whitespace-separated words, \<open>answer\<close>
  returns the greeting of the language code, the English one for any other code,
  whatever the FAQ, the conversation chain or the rule-based tier produced, and
  whatever the chain and the agent's state are.
\<close>

theorem short_query_greeting:
  "map fst LANG_GREETINGS = [u ''en'', u ''hi'', u ''te'']
   \<and> map_of LANG_GREETINGS (u ''en'') = Some english_greeting
   \<and> (length (split (strip query)) \<le> 2 \<longrightarrow>
        fst (answer lc agent query language)
          = Inr (case map_of LANG_GREETINGS language of
                   Some greeting \<Rightarrow> greeting
                 | None \<Rightarrow> english_greeting)
      \<and> (language \<notin> set [u ''en'', u ''hi'', u ''te''] \<longrightarrow>
            fst (answer lc agent query language) = Inr english_greeting))"
proof (intro conjI impI)
  show "map fst LANG_GREETINGS = [u ''en'', u ''hi'', u ''te'']" by (rule greetings_keys)
  show "map_of LANG_GREETINGS (u ''en'') = Some english_greeting" by (rule greetings_en)
next
  assume s: "length (split (strip query)) \<le> 2"
  show a: "fst (answer lc agent query language)
          = Inr (case map_of LANG_GREETINGS language of
                   Some greeting \<Rightarrow> greeting
                 | None \<Rightarrow> english_greeting)"
    unfolding answer_def Let_def
    using s by (simp add: subscript_def greetings_en split: prod.splits option.splits)
  assume "language \<notin> set [u ''en'', u ''hi'', u ''te'']"
  then have "map_of LANG_GREETINGS language = None" by (rule greetings_other)
  with a show "fst (answer lc agent query language) = Inr english_greeting" by simp
qed

theorem short_query_greeting_witness:
  "length (split (strip (u ''Hi''))) \<le> 2
   \<and> fst (answer demo_langchain \<lparr>chain = None\<rparr> (u ''Hi'') (u ''en'')) = Inr english_greeting
   \<and> length (split (strip (u ''  vastu   tips ''))) \<le> 2
   \<and> contains (lower (u ''  vastu   tips '')) (u ''vastu'')
   \<and> u ''fr'' \<notin> set [u ''en'', u ''hi'', u ''te'']
   \<and> fst (answer demo_langchain \<lparr>chain = Some 3\<rparr> (u ''  vastu   tips '') (u ''fr'')) = Inr english_greeting"
proof -
  have 1: "fst (answer demo_langchain \<lparr>chain = None\<rparr> (u ''Hi'') (u ''en'')) = Inr english_greeting"
    using short_query_greeting [of "u ''Hi''" demo_langchain "\<lparr>chain = None\<rparr>" "u ''en''"]
      short_examples(1) by (simp add: greetings_en)
  have f: "u ''fr'' \<notin> set [u ''en'', u ''hi'', u ''te'']" by (simp add: u_def)
  have 2: "fst (answer demo_langchain \<lparr>chain = Some 3\<rparr> (u ''  vastu   tips '') (u ''fr'')) = Inr english_greeting"
    using short_query_greeting [of "u ''  vastu   tips ''" demo_langchain "\<lparr>chain = Some 3\<rparr>" "u ''fr''"]
      short_examples(2) f by blast
  have 3: "contains (lower (u ''  vastu   tips '')) (u ''vastu'')"
    by (simp add: u_def lower_def to_lower_def is_ascii_upper_def)
  from 1 2 3 f short_examples show ?thesis by blast
qed

subsection \<open>The speech engine\<close>

lemma supported_en: "map_of SUPPORTED_LANGS (lower (u ''en'')) = Some (u ''en'')"
  by (simp add: SUPPORTED_LANGS_def lower_def to_lower_def is_ascii_upper_def u_def)

lemma synthesize_unknown_language:
  assumes "map_of SUPPORTED_LANGS (lower language) = None"
  shows "synthesize lib nu text language output_dir filename w
       = synthesize lib nu text (u ''en'') output_dir filename w"
  unfolding synthesize_def by (simp add: assms supported_en)

lemma synthesize_other_error:
  assumes "tts_import lib" and "tts_speak lib text (u ''en'') = Inl msg"
    and "makedirs (files w) output_dir = Inr fs1"
  shows "fst (synthesize lib nu text (u ''en'') output_dir filename w)
       = Inl (RuntimeError (u ''Text-to-speech synthesis failed: '' @ msg))"
  unfolding synthesize_def Let_def
  using assms by (simp add: supported_en split: prod.splits option.splits)

lemma path_join_suffix: "\<exists>pre. path_join a (stem @ u ''.mp3'') = pre @ u ''.mp3''"
proof -
  have "path_join a (stem @ u ''.mp3'') = stem @ u ''.mp3''
      \<or> path_join a (stem @ u ''.mp3'') = (a @ stem) @ u ''.mp3''
      \<or> path_join a (stem @ u ''.mp3'') = (a @ u ''/'' @ stem) @ u ''.mp3''"
    by (simp add: path_join_def)
  then show ?thesis by blast
qed

lemma synthesize_success_suffix:
  assumes "tts_import lib" and "fst (synthesize lib nu text language output_dir filename w) = Inr path"
  shows "\<exists>pre. path = pre @ u ''.mp3''"
proof -
  obtain stem where "path = path_join output_dir (stem @ u ''.mp3'')"
    using assms unfolding synthesize_def Let_def
    by (auto split: prod.splits option.splits sum.splits if_splits)
  with path_join_suffix show ?thesis by simp
qed


lemma replace_suffix_raw:
  "replace [46, 109, 112, 51] new (s @ [46, 109, 112, 51]) = replace [46, 109, 112, 51] new s @ new"
proof (induction "length s" arbitrary: s rule: less_induct)
  case less
  let ?old = "[46, 109, 112, 51] :: ustr"
  have four: "Suc (Suc (Suc (Suc 0))) = 4" by simp
  show ?case
  proof (cases "s = []")
    case True
    then show ?thesis
      by (simp add: replace.simps [of ?old new ?old] replace.simps [of ?old new "[]"])
  next
    case ne: False
    show ?thesis
    proof (cases "take 4 s = ?old")
      case True
      then have "length (take 4 s) = 4" by simp
      then have len: "4 \<le> length s" by simp
      have d: "length (drop 4 s) < length s" using ne by simp
      have l: "replace ?old new s = new @ replace ?old new (drop 4 s)"
        using ne True by (subst replace.simps) (simp add: four)
      have "take 4 (s @ ?old) = ?old" using True len by simp
      then have "replace ?old new (s @ ?old) = new @ replace ?old new (drop 4 s @ ?old)"
        using ne len by (subst replace.simps) (simp add: four)
      with less [OF d] l show ?thesis by simp
    next
      case False
      have d: "length (tl s) < length s" using ne by simp
      have l: "replace ?old new s = hd s # replace ?old new (tl s)"
        using ne False by (subst replace.simps) (simp add: four)
      have n: "take 4 (s @ ?old) \<noteq> ?old"
      proof (cases "4 \<le> length s")
        case True
        with False show ?thesis by simp
      next
        case False
        moreover from ne have "0 < length s" by simp
        ultimately have "length s = 1 \<or> length s = 2 \<or> length s = 3"
          by arith
        then show ?thesis
          by (auto simp: length_Suc_conv numeral_2_eq_2 numeral_3_eq_3)
      qed
      then have "replace ?old new (s @ ?old) = hd s # replace ?old new (tl s @ ?old)"
        using ne by (subst replace.simps) (simp add: four)
      with less [OF d] l show ?thesis by simp
    qed
  qed
qed

lemma replace_mp3_suffix:
  "replace (u ''.mp3'') (u ''.txt'') (s @ u ''.mp3'') = replace (u ''.mp3'') (u ''.txt'') s @ u ''.txt''"
  using replace_suffix_raw [of "u ''.txt''" s] by (simp add: u_def)


lemma write_file_content:
  "write_file fs path content = Inr fs2 \<Longrightarrow> map_of (fs_files fs2) path = Some content"
  by (auto simp: write_file_def split: if_splits)

lemma synthesize_placeholder:
  assumes "\<not> tts_import lib"
    and "synthesize lib nu text language output_dir filename w = (Inr path, w')"
  shows "(\<exists>pre. path = pre @ u ''.txt'')
       \<and> map_of (fs_files (files w')) path
           = Some (u ''[TTS placeholder] lang=''
                   @ (case map_of SUPPORTED_LANGS (lower language) of
                        None \<Rightarrow> u ''en'' | Some code \<Rightarrow> code)
                   @ [10] @ text)"
proof -
  let ?content = "u ''[TTS placeholder] lang=''
                   @ (case map_of SUPPORTED_LANGS (lower language) of
                        None \<Rightarrow> u ''en'' | Some code \<Rightarrow> code)
                   @ [10] @ text"
  define gen where "gen = u ''tts_'' @ slice 0 12 (uuid_hex (fst (nu (tts_entropy w))))"
  define stem where "stem = (case filename of
                               Some given \<Rightarrow> if given \<noteq> [] then given else gen
                             | None \<Rightarrow> gen)"
  from assms have "\<exists>fs1 fs2.
      path = replace (u ''.mp3'') (u ''.txt'') (path_join output_dir (stem @ u ''.mp3''))
      \<and> write_file fs1 path ?content = Inr fs2 \<and> files w' = fs2"
    unfolding synthesize_def Let_def stem_def gen_def
    by (fastforce split: prod.splits option.splits sum.splits if_splits)
  then obtain fs1 fs2 where
    p: "path = replace (u ''.mp3'') (u ''.txt'') (path_join output_dir (stem @ u ''.mp3''))"
    and wf: "write_file fs1 path ?content = Inr fs2" and w': "files w' = fs2"
    by blast
  from path_join_suffix obtain pre where "path_join output_dir (stem @ u ''.mp3'') = pre @ u ''.mp3''"
    by blast
  with p have "path = replace (u ''.mp3'') (u ''.txt'') pre @ u ''.txt''"
    by (simp add: replace_mp3_suffix)
  moreover from write_file_content [OF wf] w' have "map_of (fs_files (files w')) path = Some ?content"
    by simp
  ultimately show ?thesis by blast
qed

lemma replace_in_directory: "replace (u ''.mp3'') (u ''.txt'') (u ''/tmp/a.mp3/hello.mp3'') = u ''/tmp/a.txt/hello.txt''"
  by (simp add: replace.simps u_def)

text \<open>
  Claim C8. The claim: when the speech library cannot be imported, \<open>synthesize\<close> still
  returns a valid path, that of a placeholder text file whose extension is changed from
  \<open>.mp3\<close> to \<open>.txt\<close>. The rest of the claim holds: an unknown language is treated as
  \<open>en\<close>, another error of the library becomes a \<open>RuntimeError\<close>, a path returned
  with the library ends in \<open>.mp3\<close>, and a path returned without it ends in \<open>.txt\<close>
  and holds the marker and the text (the four lemmas above). But the code derives the placeholder path with
  \<open>out_path.replace(".mp3", ".txt")\<close>, which rewrites every occurrence in the whole
  path. With the output directory \<open>/tmp/a.mp3\<close> the placeholder path lies in the
  directory \<open>/tmp/a.txt\<close>, which nothing has created: writing the file raises
  \<open>FileNotFoundError\<close> and no path is returned.
\<close>

theorem synthesize_placeholder_path_lost:
  "fst (synthesize no_speech_library demo_uuid4 (u ''Welcome'') (u ''en'') (u ''/tmp/a.mp3'')
          (Some (u ''hello'')) tmp_only) = Inl FileNotFoundError"
  by (simp add: synthesize_def no_speech_library_def tmp_only_def path_join_def makedirs_def
      is_file_def is_dir_def ancestors_def write_file_def dirname_def
      replace_in_directory [unfolded u_def, simplified] u_def Let_def)

end
